theory Spec2Isabelle
  imports Main
begin

unbundle bit_operations_syntax

section \<open>Common building blocks\<close>

subsection \<open>Errors\<close>

text \<open>
  The services report failures as Go \<open>error\<close> values. \<open>errors.New(code, msg)\<close> is
  \<open>AppError code msg None\<close>, \<open>errors.Wrap(code, msg, err)\<close> is
  \<open>AppError code msg (Some err)\<close>, \<open>fmt.Errorf(msg)\<close> is \<open>Errorf msg None\<close> and
  \<open>fmt.Errorf("msg: %w", err)\<close> is \<open>Errorf msg (Some err)\<close>. \<open>DriverError\<close> is any
  failure reported by the database driver or the bus client, \<open>UniqueViolation\<close> is the
  driver error with SQLSTATE 23505.
\<close>

datatype ErrCode =
    ErrCodeInvalidOrder
  | ErrCodeDatabaseError
  | ErrCodeSerializationError
  | ErrCodeOrderNotFound
  | ErrCodePaymentDeclined

datatype error =
    DriverError
  | UniqueViolation
  | Errorf string "error option"
  | AppError ErrCode string "error option"

subsection \<open>The environment of a call\<close>

text \<open>
  Everything a handler cannot decide itself is an input: which call to the database or
  the bus fails, the clock, the identifiers drawn from \<open>uuid.New()\<close>, and the verdict of
  the simulated payment gateway (\<open>rand.Intn(100) < 10\<close>). The rendering \<open>err.Error()\<close>
  of an error as text belongs to the \<open>common/errors\<close> package and is a parameter too.
\<close>

datatype call =
    CallBeginTx
  | CallCommit
  | CallMarshal
  | CallOutboxInsert
  | CallOutboxFindPending
  | CallOutboxMarkSent
  | CallPublish
  | CallOrderCreate
  | CallOrderFindByID
  | CallOrderFindByIdempotencyKey
  | CallOrderUpdateStatus
  | CallPaymentCreate
  | CallPaymentFindByIdempotencyKey
  | CallPaymentFindByOrderID
  | CallPaymentUpdateStatus
  | CallReservationFindByKey
  | CallReservationFindByOrder
  | CallReservationInsert
  | CallReservationCancel
  | CallInventorySelect
  | CallInventoryUpdate
  | CallInventoryRestore

record env =
  fails :: "call \<Rightarrow> bool"
  now :: nat
  uuid0 :: string
  uuid1 :: string
  uuid2 :: string
  declined :: bool
  error_text :: "error \<Rightarrow> string"

subsection \<open>Decimal rendering (\<open>strconv.FormatInt(n, 10)\<close>, \<open>%d\<close>)\<close>

definition digit_char :: "nat \<Rightarrow> char" where
  "digit_char d = char_of (48 + d)"

function digits10 :: "nat \<Rightarrow> string" where
  "digits10 n =
     (if n < 10 then [digit_char n] else digits10 (n div 10) @ [digit_char (n mod 10)])"
  by pat_completeness auto
termination
  by (relation "measure id") auto

declare digits10.simps [simp del]

definition FormatInt :: "int \<Rightarrow> string" where
  "FormatInt i = (if i < 0 then CHR ''-'' # digits10 (nat (- i)) else digits10 (nat i))"

subsection \<open>JSON values and event payloads\<close>

text \<open>
  A payload is kept as the JSON value that \<open>json.Marshal\<close> produced; the byte-level wire
  format is outside the model. Numbers are the integer identifiers and amounts the
  services marshal (\<open>int64\<close> and \<open>int\<close> fields), written exactly. Timestamps are
  rendered as numbers.
\<close>

datatype json =
    JNull
  | JBool bool
  | JNumber int
  | JString string
  | JArray "json list"
  | JObject "(string \<times> json) list"

record BaseEvent =
  EventID :: string
  EventType :: string
  SchemaVersion :: int
  OccurredAt :: nat
  CorrelationID :: string

definition marshal_base :: "BaseEvent \<Rightarrow> (string \<times> json) list" where
  "marshal_base b =
     [(''eventId'', JString (EventID b)),
      (''eventType'', JString (EventType b)),
      (''schemaVersion'', JNumber (SchemaVersion b)),
      (''occurredAt'', JNumber (int (OccurredAt b))),
      (''correlationId'', JString (CorrelationID b))]"

definition EventOrderCreated :: string where
  "EventOrderCreated = ''order.created.v1''"

definition EventPaymentCompleted :: string where
  "EventPaymentCompleted = ''payment.completed.v1''"

definition EventPaymentFailed :: string where
  "EventPaymentFailed = ''payment.failed.v1''"

definition EventPaymentRefunded :: string where
  "EventPaymentRefunded = ''payment.refunded.v1''"

definition EventStockReserved :: string where
  "EventStockReserved = ''stock.reserved.v1''"

definition EventStockReservationFailed :: string where
  "EventStockReservationFailed = ''stock.reservation_failed.v1''"

definition EventStockRestored :: string where
  "EventStockRestored = ''stock.restored.v1''"

subsection \<open>Outbox rows\<close>

record OutboxEvent =
  ob_ID :: int
  ob_AggregateType :: string
  ob_AggregateID :: int
  ob_EventType :: string
  ob_Payload :: json
  ob_Status :: string
  ob_CreatedAt :: nat
  ob_SentAt :: "nat option"

section \<open>Order service\<close>

subsection \<open>Domain\<close>

datatype OrderStatus =
    OrderStatusPending
  | OrderStatusPaymentProcessing
  | OrderStatusStockReserving
  | OrderStatusDeliveryPreparing
  | OrderStatusCompleted
  | OrderStatusCanceled
  | OrderStatusFailed

fun status_string :: "OrderStatus \<Rightarrow> string" where
  "status_string OrderStatusPending = ''PENDING''"
| "status_string OrderStatusPaymentProcessing = ''PAYMENT_PROCESSING''"
| "status_string OrderStatusStockReserving = ''STOCK_RESERVING''"
| "status_string OrderStatusDeliveryPreparing = ''DELIVERY_PREPARING''"
| "status_string OrderStatusCompleted = ''COMPLETED''"
| "status_string OrderStatusCanceled = ''CANCELED''"
| "status_string OrderStatusFailed = ''FAILED''"

record Order =
  ord_ID :: int
  ord_UserID :: int
  ord_Amount :: int
  ord_Quantity :: int
  ord_Status :: OrderStatus
  ord_Version :: int
  ord_IdempotencyKey :: string
  ord_CreatedAt :: nat
  ord_UpdatedAt :: nat

text \<open>The table of \<open>Order.CanTransitionTo\<close>; a status without an entry allows nothing.\<close>

fun transitions :: "OrderStatus \<Rightarrow> OrderStatus list option" where
  "transitions OrderStatusPending =
     Some [OrderStatusPaymentProcessing, OrderStatusCanceled, OrderStatusFailed]"
| "transitions OrderStatusPaymentProcessing =
     Some [OrderStatusStockReserving, OrderStatusCanceled, OrderStatusFailed]"
| "transitions OrderStatusStockReserving =
     Some [OrderStatusDeliveryPreparing, OrderStatusCanceled, OrderStatusFailed]"
| "transitions OrderStatusDeliveryPreparing =
     Some [OrderStatusCompleted, OrderStatusCanceled, OrderStatusFailed]"
| "transitions _ = None"

definition CanTransitionTo :: "Order \<Rightarrow> OrderStatus \<Rightarrow> bool" where
  "CanTransitionTo r newStatus =
     (case transitions (ord_Status r) of
        None \<Rightarrow> False
      | Some allowedTransitions \<Rightarrow> newStatus \<in> set allowedTransitions)"

subsection \<open>Repositories\<close>

text \<open>
  The committed content of the order database: the \<open>orders\<close> table, the
  \<open>outbox_events\<close> table and the two \<open>BIGSERIAL\<close> counters. Rows are kept in insertion
  order.
\<close>

record order_db =
  orders :: "Order list"
  next_order_id :: int
  order_outbox :: "OutboxEvent list"
  next_outbox_id :: int

text \<open>
  \<open>orderRepository.Create\<close> runs its \<open>INSERT\<close> on the connection pool \<open>r.db\<close>, not on a
  transaction handle: the row is committed when the call returns. The unique index on
  \<open>idempotency_key\<close> rejects a key that is already stored.
\<close>

definition orderRepository_Create ::
  "env \<Rightarrow> Order \<Rightarrow> order_db \<Rightarrow> error + (Order \<times> order_db)" where
  "orderRepository_Create e order db =
     (if fails e CallOrderCreate then
        Inl (Errorf ''failed to create order'' (Some DriverError))
      else if \<exists>r \<in> set (orders db). ord_IdempotencyKey r = ord_IdempotencyKey order then
        Inl (Errorf ''duplicate idempotency key'' (Some UniqueViolation))
      else
        (let order' = order\<lparr>ord_ID := next_order_id db, ord_Version := 0\<rparr>
         in Inr (order',
                 db\<lparr>orders := orders db @ [order'],
                    next_order_id := next_order_id db + 1\<rparr>)))"

definition orderRepository_FindByID :: "env \<Rightarrow> order_db \<Rightarrow> int \<Rightarrow> error + Order" where
  "orderRepository_FindByID e db i =
     (if fails e CallOrderFindByID then
        Inl (Errorf ''failed to find order'' (Some DriverError))
      else case find (\<lambda>r. ord_ID r = i) (orders db) of
        None \<Rightarrow> Inl (Errorf (''order not found: '' @ FormatInt i) None)
      | Some r \<Rightarrow> Inr r)"

definition orderRepository_FindByIdempotencyKey ::
  "env \<Rightarrow> order_db \<Rightarrow> string \<Rightarrow> error + Order" where
  "orderRepository_FindByIdempotencyKey e db k =
     (if fails e CallOrderFindByIdempotencyKey then
        Inl (Errorf ''failed to find order'' (Some DriverError))
      else case find (\<lambda>r. ord_IdempotencyKey r = k) (orders db) of
        None \<Rightarrow> Inl (Errorf (''order not found with idempotency key: '' @ k) None)
      | Some r \<Rightarrow> Inr r)"

text \<open>
  \<open>UPDATE orders SET status = $1, version = version + 1, updated_at = NOW()
  WHERE id = $2 AND version = $3\<close>; the boolean is \<open>rowsAffected > 0\<close>.
\<close>

definition orderRepository_UpdateStatusWithVersion ::
  "env \<Rightarrow> order_db \<Rightarrow> int \<Rightarrow> OrderStatus \<Rightarrow> int \<Rightarrow> error + (bool \<times> order_db)" where
  "orderRepository_UpdateStatusWithVersion e db i status currentVersion =
     (if fails e CallOrderUpdateStatus then
        Inl (Errorf ''failed to update order status'' (Some DriverError))
      else
        Inr (\<exists>r \<in> set (orders db). ord_ID r = i \<and> ord_Version r = currentVersion,
             db\<lparr>orders :=
                  map (\<lambda>r. if ord_ID r = i \<and> ord_Version r = currentVersion
                            then r\<lparr>ord_Status := status,
                                   ord_Version := ord_Version r + 1,
                                   ord_UpdatedAt := now e\<rparr>
                            else r)
                      (orders db)\<rparr>))"

text \<open>
  A transaction of the order service only ever inserts outbox rows, so an open
  transaction is the list of rows it has written and not yet committed. \<open>InsertTx\<close>
  adds to that list; \<open>tx.Commit()\<close> appends the list to the table; the deferred
  \<open>tx.Rollback()\<close> of an error return drops it.
\<close>

type_synonym outbox_tx = "OutboxEvent list"

definition outboxRepository_InsertTx ::
  "env \<Rightarrow> int \<Rightarrow> outbox_tx \<Rightarrow> OutboxEvent \<Rightarrow> error + outbox_tx" where
  "outboxRepository_InsertTx e next_id tx event =
     (if fails e CallOutboxInsert then
        Inl (Errorf ''failed to insert outbox event'' (Some DriverError))
      else Inr (tx @ [event\<lparr>ob_ID := next_id + int (length tx)\<rparr>]))"

definition order_commit :: "outbox_tx \<Rightarrow> order_db \<Rightarrow> order_db" where
  "order_commit tx db =
     db\<lparr>order_outbox := order_outbox db @ tx,
        next_outbox_id := next_outbox_id db + int (length tx)\<rparr>"

subsection \<open>\<open>orderService.CreateOrder\<close>\<close>

record CreateOrderCommand =
  cmd_UserID :: int
  cmd_Amount :: int
  cmd_Quantity :: int
  cmd_IdempotencyKey :: string

record CreateOrderResult =
  res_OrderID :: int
  res_Status :: OrderStatus

definition marshal_OrderCreated :: "BaseEvent \<Rightarrow> Order \<Rightarrow> json" where
  "marshal_OrderCreated b order =
     JObject (marshal_base b @
       [(''orderId'', JNumber (ord_ID order)),
        (''userId'', JNumber (ord_UserID order)),
        (''amount'', JNumber (ord_Amount order)),
        (''quantity'', JNumber (ord_Quantity order))])"

text \<open>The idempotency check of \<open>CreateOrder\<close>: the existing order, when the lookup returns one.\<close>

definition existing_order :: "env \<Rightarrow> order_db \<Rightarrow> string \<Rightarrow> Order option" where
  "existing_order e db k =
     (if k \<noteq> '''' then
        (case orderRepository_FindByIdempotencyKey e db k of
           Inr existing \<Rightarrow> Some existing
         | Inl _ \<Rightarrow> None)
      else None)"

definition CreateOrder ::
  "env \<Rightarrow> CreateOrderCommand \<Rightarrow> order_db \<Rightarrow> (error + CreateOrderResult) \<times> order_db" where
  "CreateOrder e cmd db =
     (case existing_order e db (cmd_IdempotencyKey cmd) of
        Some existing \<Rightarrow>
          (Inr \<lparr>res_OrderID = ord_ID existing, res_Status = ord_Status existing\<rparr>, db)
      | None \<Rightarrow>
          if cmd_Amount cmd \<le> 0 then
            (Inl (AppError ErrCodeInvalidOrder ''amount must be positive'' None), db)
          else if cmd_Quantity cmd \<le> 0 then
            (Inl (AppError ErrCodeInvalidOrder ''quantity must be positive'' None), db)
          else if fails e CallBeginTx then
            (Inl (AppError ErrCodeDatabaseError ''failed to begin transaction''
                    (Some DriverError)), db)
          else
            (case orderRepository_Create e
                    \<lparr>ord_ID = 0, ord_UserID = cmd_UserID cmd, ord_Amount = cmd_Amount cmd,
                     ord_Quantity = cmd_Quantity cmd, ord_Status = OrderStatusPending,
                     ord_Version = 0, ord_IdempotencyKey = cmd_IdempotencyKey cmd,
                     ord_CreatedAt = now e, ord_UpdatedAt = now e\<rparr> db of
               Inl err \<Rightarrow>
                 (Inl (AppError ErrCodeDatabaseError ''failed to create order'' (Some err)), db)
             | Inr (order, db1) \<Rightarrow>
                 if fails e CallMarshal then
                   (Inl (AppError ErrCodeSerializationError ''failed to marshal event''
                           (Some DriverError)), db1)
                 else
                   (case outboxRepository_InsertTx e (next_outbox_id db1) []
                           \<lparr>ob_ID = 0, ob_AggregateType = ''order'',
                            ob_AggregateID = ord_ID order,
                            ob_EventType = EventOrderCreated,
                            ob_Payload =
                              marshal_OrderCreated
                                \<lparr>EventID = uuid2 e, EventType = EventOrderCreated,
                                 SchemaVersion = 1, OccurredAt = now e,
                                 CorrelationID = uuid1 e\<rparr> order,
                            ob_Status = ''PENDING'', ob_CreatedAt = now e,
                            ob_SentAt = None\<rparr> of
                      Inl err \<Rightarrow>
                        (Inl (AppError ErrCodeDatabaseError ''failed to insert outbox event''
                                (Some err)), db1)
                    | Inr tx \<Rightarrow>
                        if fails e CallCommit then
                          (Inl (AppError ErrCodeDatabaseError ''failed to commit transaction''
                                  (Some DriverError)), db1)
                        else
                          (Inr \<lparr>res_OrderID = ord_ID order, res_Status = ord_Status order\<rparr>,
                           order_commit tx db1))))"

subsection \<open>\<open>HTTPHandler.CreateOrder\<close>\<close>

record CreateOrderRequest =
  req_UserID :: int
  req_Amount :: int
  req_Quantity :: int
  req_IdempotencyKey :: string

text \<open>A request is its method and its decoded body; \<open>None\<close> is a body that does not decode.\<close>

record http_request =
  http_method :: string
  http_body :: "CreateOrderRequest option"

datatype message = Text string | ErrorText error

datatype response_body =
    ErrorResponse message string
  | CreateOrderResponse int string

definition StatusCreated :: nat where
  "StatusCreated = 201"

definition StatusBadRequest :: nat where
  "StatusBadRequest = 400"

definition StatusMethodNotAllowed :: nat where
  "StatusMethodNotAllowed = 405"

definition StatusInternalServerError :: nat where
  "StatusInternalServerError = 500"

definition HTTPHandler_CreateOrder ::
  "env \<Rightarrow> http_request \<Rightarrow> order_db \<Rightarrow> (nat \<times> response_body) \<times> order_db" where
  "HTTPHandler_CreateOrder e r db =
     (if http_method r \<noteq> ''POST'' then
        ((StatusMethodNotAllowed, ErrorResponse (Text ''method not allowed'') ''''), db)
      else case http_body r of
        None \<Rightarrow> ((StatusBadRequest, ErrorResponse (Text ''invalid request body'') ''''), db)
      | Some req \<Rightarrow>
          (case CreateOrder e
                  \<lparr>cmd_UserID = req_UserID req, cmd_Amount = req_Amount req,
                   cmd_Quantity = req_Quantity req,
                   cmd_IdempotencyKey =
                     (if req_IdempotencyKey req = '''' then uuid0 e
                      else req_IdempotencyKey req)\<rparr> db of
             (Inl err, db') \<Rightarrow>
               ((StatusInternalServerError, ErrorResponse (ErrorText err) ''''), db')
           | (Inr result, db') \<Rightarrow>
               ((StatusCreated,
                 CreateOrderResponse (res_OrderID result) (status_string (res_Status result))),
                db')))"

subsection \<open>Inbound events of the order service\<close>

record OrderCreatedEvent = BaseEvent +
  oc_OrderID :: int
  oc_UserID :: int
  oc_Amount :: int
  oc_Quantity :: int

record PaymentCompletedEvent = BaseEvent +
  pc_OrderID :: int
  pc_PaymentID :: int
  pc_Amount :: int
  pc_PaymentType :: string

record PaymentFailedEvent = BaseEvent +
  pf_OrderID :: int
  pf_Reason :: string

record PaymentRefundedEvent = BaseEvent +
  pr_OrderID :: int
  pr_PaymentID :: int
  pr_Amount :: int

record StockReservedEvent = BaseEvent +
  sr_OrderID :: int
  sr_ReservationID :: int
  sr_Quantity :: int

record StockReservationFailedEvent = BaseEvent +
  sf_OrderID :: int
  sf_Quantity :: int
  sf_Reason :: string

record DeliveryStartedEvent = BaseEvent +
  ds_OrderID :: int
  ds_DeliveryID :: int
  ds_Address :: string

record DeliveryFailedEvent = BaseEvent +
  df_OrderID :: int
  df_Reason :: string

text \<open>
  Three handlers test the current status before they update
  (\<open>if order.Status == ...\<close>); the shared shape is \<open>guarded_transition\<close>. The three
  failure handlers update without a test; their shape is \<open>forced_transition\<close>.
\<close>

definition guarded_transition ::
  "env \<Rightarrow> order_db \<Rightarrow> int \<Rightarrow> OrderStatus \<Rightarrow> OrderStatus \<Rightarrow> error option \<times> order_db" where
  "guarded_transition e db orderID expected next =
     (case orderRepository_FindByID e db orderID of
        Inl err \<Rightarrow> (Some (Errorf ''order not found'' (Some err)), db)
      | Inr order \<Rightarrow>
          if ord_Status order = expected then
            (case orderRepository_UpdateStatusWithVersion e db (ord_ID order) next
                    (ord_Version order) of
               Inl err \<Rightarrow> (Some (Errorf ''failed to update order status'' (Some err)), db)
             | Inr (_, db') \<Rightarrow> (None, db'))
          else (None, db))"

definition forced_transition ::
  "env \<Rightarrow> order_db \<Rightarrow> int \<Rightarrow> OrderStatus \<Rightarrow> error option \<times> order_db" where
  "forced_transition e db orderID next =
     (case orderRepository_FindByID e db orderID of
        Inl err \<Rightarrow> (Some (Errorf ''order not found'' (Some err)), db)
      | Inr order \<Rightarrow>
          (case orderRepository_UpdateStatusWithVersion e db (ord_ID order) next
                  (ord_Version order) of
             Inl err \<Rightarrow> (Some (Errorf ''failed to update order status'' (Some err)), db)
           | Inr (_, db') \<Rightarrow> (None, db')))"

definition orderService_HandlePaymentCompleted ::
  "env \<Rightarrow> PaymentCompletedEvent \<Rightarrow> order_db \<Rightarrow> error option \<times> order_db" where
  "orderService_HandlePaymentCompleted e evt db =
     guarded_transition e db (pc_OrderID evt) OrderStatusPending OrderStatusStockReserving"

definition orderService_HandlePaymentFailed ::
  "env \<Rightarrow> PaymentFailedEvent \<Rightarrow> order_db \<Rightarrow> error option \<times> order_db" where
  "orderService_HandlePaymentFailed e evt db =
     forced_transition e db (pf_OrderID evt) OrderStatusCanceled"

definition orderService_HandleStockReserved ::
  "env \<Rightarrow> StockReservedEvent \<Rightarrow> order_db \<Rightarrow> error option \<times> order_db" where
  "orderService_HandleStockReserved e evt db =
     guarded_transition e db (sr_OrderID evt) OrderStatusStockReserving
       OrderStatusDeliveryPreparing"

definition orderService_HandleStockReservationFailed ::
  "env \<Rightarrow> StockReservationFailedEvent \<Rightarrow> order_db \<Rightarrow> error option \<times> order_db" where
  "orderService_HandleStockReservationFailed e evt db =
     forced_transition e db (sf_OrderID evt) OrderStatusFailed"

definition orderService_HandleDeliveryStarted ::
  "env \<Rightarrow> DeliveryStartedEvent \<Rightarrow> order_db \<Rightarrow> error option \<times> order_db" where
  "orderService_HandleDeliveryStarted e evt db =
     guarded_transition e db (ds_OrderID evt) OrderStatusDeliveryPreparing
       OrderStatusCompleted"

definition orderService_HandleDeliveryFailed ::
  "env \<Rightarrow> DeliveryFailedEvent \<Rightarrow> order_db \<Rightarrow> error option \<times> order_db" where
  "orderService_HandleDeliveryFailed e evt db =
     forced_transition e db (df_OrderID evt) OrderStatusFailed"

text \<open>The status of the order with a given id, as \<open>GET /orders/{id}\<close> would show it.\<close>

definition status_of :: "order_db \<Rightarrow> int \<Rightarrow> OrderStatus option" where
  "status_of db i = map_option ord_Status (find (\<lambda>r. ord_ID r = i) (orders db))"

section \<open>Messaging\<close>

subsection \<open>Publisher\<close>

record bus_message =
  msg_Topic :: string
  msg_Key :: string
  msg_Value :: json

text \<open>The bus is the list of messages the producer has sent, oldest first.\<close>

definition KafkaPublisher_Publish ::
  "env \<Rightarrow> string \<Rightarrow> string \<Rightarrow> json \<Rightarrow> bus_message list \<Rightarrow> error + bus_message list" where
  "KafkaPublisher_Publish e topic key event bus =
     (if fails e CallMarshal then
        Inl (Errorf ''failed to marshal event'' (Some DriverError))
      else if fails e CallPublish then
        Inl (Errorf ''failed to send message'' (Some DriverError))
      else Inr (bus @ [\<lparr>msg_Topic = topic, msg_Key = key, msg_Value = event\<rparr>]))"

definition PublishWithOrderID ::
  "env \<Rightarrow> string \<Rightarrow> int \<Rightarrow> json \<Rightarrow> bus_message list \<Rightarrow> error + bus_message list" where
  "PublishWithOrderID e topic orderID event bus =
     KafkaPublisher_Publish e topic (FormatInt orderID) event bus"

subsection \<open>Consumer\<close>

record Message =
  Topic :: string
  Partition :: int
  Offset :: int
  Key :: string
  Value :: json

text \<open>
  What a consumer-group session observes, in order: the handler was called on a message
  and returned, or the message was marked (its offset is committed with the next
  commit of the session).
\<close>

datatype consumer_action =
    Handled Message "error option"
  | Marked Message

text \<open>
  \<open>ConsumeClaim\<close> ranges over the messages of the claim. The handler is any function of
  the message and the state of the service; an error it returns is logged and nothing
  else.
\<close>

fun ConsumeClaim ::
  "(Message \<Rightarrow> 's \<Rightarrow> error option \<times> 's) \<Rightarrow> Message list \<Rightarrow>
   's \<times> consumer_action list \<Rightarrow> 's \<times> consumer_action list" where
  "ConsumeClaim handler [] session = session"
| "ConsumeClaim handler (message # claim) (s, log) =
     (case handler message s of
        (err, s') \<Rightarrow>
          ConsumeClaim handler claim (s', log @ [Handled message err, Marked message]))"

fun marked :: "consumer_action list \<Rightarrow> Message list" where
  "marked [] = []"
| "marked (Marked m # log) = m # marked log"
| "marked (Handled m err # log) = marked log"

text \<open>A log in which every handler call is directly followed by the mark of its message.\<close>

fun handled_then_marked :: "consumer_action list \<Rightarrow> bool" where
  "handled_then_marked [] = True"
| "handled_then_marked (Handled m err # Marked m' # log) = (m = m' \<and> handled_then_marked log)"
| "handled_then_marked _ = False"

section \<open>Outbox relays\<close>

subsection \<open>Reading and marking outbox rows\<close>

text \<open>
  \<open>SELECT ... WHERE status = 'PENDING' ORDER BY created_at ASC LIMIT n\<close>. Rows with the
  same \<open>created_at\<close> stay in insertion order.
\<close>

definition pending_rows :: "nat \<Rightarrow> OutboxEvent list \<Rightarrow> OutboxEvent list" where
  "pending_rows limit rows =
     take limit (sort_key ob_CreatedAt (filter (\<lambda>r. ob_Status r = ''PENDING'') rows))"

definition mark_sent :: "nat \<Rightarrow> int \<Rightarrow> OutboxEvent list \<Rightarrow> OutboxEvent list" where
  "mark_sent t i rows =
     map (\<lambda>r. if ob_ID r = i then r\<lparr>ob_Status := ''SENT'', ob_SentAt := Some t\<rparr> else r) rows"

subsection \<open>The order service's \<open>OutboxWorker\<close>\<close>

text \<open>
  \<open>json.Unmarshal\<close> into a \<open>map[string]interface{}\<close>: an object gives its fields (a
  repeated name keeps the last value), \<open>null\<close> gives the empty map, anything else is an
  error.
\<close>

definition unmarshal_map :: "json \<Rightarrow> (string \<rightharpoonup> json) option" where
  "unmarshal_map j =
     (case j of
        JObject kvs \<Rightarrow> Some (map_of (rev kvs))
      | JNull \<Rightarrow> Some Map.empty
      | _ \<Rightarrow> None)"

text \<open>
  A JSON number decoded into \<open>interface{}\<close> is a \<open>float64\<close>: an integer of more than 53
  significant bits is rounded to the nearest representable value, ties to the even
  mantissa. \<open>float64 x\<close> is the value of that double, itself an integer.
\<close>

function bit_length :: "nat \<Rightarrow> nat" where
  "bit_length n = (if n = 0 then 0 else Suc (bit_length (n div 2)))"
  by pat_completeness auto
termination
  by (relation "measure id") auto

declare bit_length.simps [simp del]

definition float64 :: "int \<Rightarrow> int" where
  "float64 x =
     (let a = nat \<bar>x\<bar>; n = bit_length a in
      if n \<le> 53 then x
      else
        (let e = n - 53; q = a div 2 ^ e; r = a mod 2 ^ e;
             q' = (if 2 ^ (e - 1) < r \<or> (r = 2 ^ (e - 1) \<and> odd q) then q + 1 else q)
         in sgn x * int (q' * 2 ^ e)))"

text \<open>
  The conversion \<open>int64(oid)\<close> of a \<open>float64\<close> with an integral value keeps the value
  when it fits; outside the range of \<open>int64\<close> the result depends on the platform, and
  is the smallest \<open>int64\<close> on amd64.
\<close>

definition int64 :: "int \<Rightarrow> int" where
  "int64 f = (if - (2 ^ 63) \<le> f \<and> f < 2 ^ 63 then f else - (2 ^ 63))"

text \<open>
  The conversion \<open>string(rune(n))\<close> of an \<open>int64\<close>. \<open>rune\<close> is \<open>int32\<close>: the conversion
  keeps the low 32 bits. \<open>string\<close> of a rune is the UTF-8 encoding of that code point,
  and of U+FFFD when the value is no valid code point.
\<close>

definition rune :: "int \<Rightarrow> int" where
  "rune x = signed_take_bit 31 x"

definition string_of_rune :: "int \<Rightarrow> string" where
  "string_of_rune r =
     (if r < 0 \<or> 0x10FFFF < r \<or> (0xD800 \<le> r \<and> r \<le> 0xDFFF) then
        [char_of (0xEF :: int), char_of (0xBF :: int), char_of (0xBD :: int)]
      else if r < 0x80 then [char_of r]
      else if r < 0x800 then
        [char_of (0xC0 OR drop_bit 6 r), char_of (0x80 OR (r AND 0x3F))]
      else if r < 0x10000 then
        [char_of (0xE0 OR drop_bit 12 r),
         char_of (0x80 OR (drop_bit 6 r AND 0x3F)),
         char_of (0x80 OR (r AND 0x3F))]
      else
        [char_of (0xF0 OR drop_bit 18 r),
         char_of (0x80 OR (drop_bit 12 r AND 0x3F)),
         char_of (0x80 OR (drop_bit 6 r AND 0x3F)),
         char_of (0x80 OR (r AND 0x3F))])"

text \<open>The partition key \<open>publishEvent\<close> computes from a payload.\<close>

definition partition_key :: "(string \<rightharpoonup> json) \<Rightarrow> string" where
  "partition_key payload =
     (case payload ''orderId'' of
        Some (JNumber oid) \<Rightarrow> string_of_rune (rune (int64 (float64 oid)))
      | _ \<Rightarrow> '''')"

definition OutboxWorker_publishEvent ::
  "env \<Rightarrow> OutboxEvent \<Rightarrow> bus_message list \<Rightarrow> error + bus_message list" where
  "OutboxWorker_publishEvent e event bus =
     (case unmarshal_map (ob_Payload event) of
        None \<Rightarrow> Inl DriverError
      | Some payload \<Rightarrow>
          KafkaPublisher_Publish e (ob_EventType event) (partition_key payload)
            (ob_Payload event) bus)"

text \<open>One pass of the loop body of \<open>process\<close> over the rows that were read.\<close>

fun OutboxWorker_publish_all ::
  "env \<Rightarrow> OutboxEvent list \<Rightarrow> order_db \<times> bus_message list \<Rightarrow> order_db \<times> bus_message list" where
  "OutboxWorker_publish_all e [] st = st"
| "OutboxWorker_publish_all e (event # events) (db, bus) =
     (case OutboxWorker_publishEvent e event bus of
        Inl err \<Rightarrow> OutboxWorker_publish_all e events (db, bus)
      | Inr bus' \<Rightarrow>
          if fails e CallOutboxMarkSent then OutboxWorker_publish_all e events (db, bus')
          else OutboxWorker_publish_all e events
                 (db\<lparr>order_outbox := mark_sent (now e) (ob_ID event) (order_outbox db)\<rparr>, bus'))"

definition OutboxWorker_process ::
  "env \<Rightarrow> order_db \<times> bus_message list \<Rightarrow> error option \<times> order_db \<times> bus_message list" where
  "OutboxWorker_process e st =
     (if fails e CallOutboxFindPending then
        (Some (Errorf ''failed to find pending events'' (Some DriverError)), st)
      else (None, OutboxWorker_publish_all e (pending_rows 100 (order_outbox (fst st))) st))"

subsection \<open>The relay of the payment and inventory services (\<open>startOutboxWorker\<close>)\<close>

text \<open>
  One tick of the loop, on the outbox table of the service. The key argument of
  \<open>Publish\<close> is the constant \<open>""\<close>.
\<close>

fun relay_rows ::
  "env \<Rightarrow> OutboxEvent list \<Rightarrow> OutboxEvent list \<times> bus_message list \<Rightarrow>
   OutboxEvent list \<times> bus_message list" where
  "relay_rows e [] st = st"
| "relay_rows e (row # rows) (table, bus) =
     (case KafkaPublisher_Publish e (ob_EventType row) '''' (ob_Payload row) bus of
        Inl err \<Rightarrow> relay_rows e rows (table, bus)
      | Inr bus' \<Rightarrow>
          if fails e CallOutboxMarkSent then relay_rows e rows (table, bus')
          else relay_rows e rows (mark_sent (now e) (ob_ID row) table, bus'))"

definition startOutboxWorker_tick ::
  "env \<Rightarrow> OutboxEvent list \<times> bus_message list \<Rightarrow> OutboxEvent list \<times> bus_message list" where
  "startOutboxWorker_tick e st =
     (if fails e CallOutboxFindPending then st
      else relay_rows e (pending_rows 100 (fst st)) st)"

section \<open>Payment service\<close>

subsection \<open>Domain and repositories\<close>

datatype PaymentStatus =
    PaymentStatusPending
  | PaymentStatusCompleted
  | PaymentStatusFailed
  | PaymentStatusRefunded

record Payment =
  pay_ID :: int
  pay_OrderID :: int
  pay_Amount :: int
  pay_PaymentType :: string
  pay_Status :: PaymentStatus
  pay_IdempotencyKey :: string
  pay_PaymentGatewayTxID :: string
  pay_Reason :: string
  pay_CreatedAt :: nat
  pay_UpdatedAt :: nat

record payment_db =
  payments :: "Payment list"
  next_payment_id :: int
  payment_outbox :: "OutboxEvent list"
  next_payment_outbox_id :: int

text \<open>
  \<open>paymentRepository.Create\<close> and \<open>paymentRepository.UpdateStatus\<close> run on the pool
  \<open>r.db\<close>, as \<open>orderRepository.Create\<close> does; \<open>payments.idempotency_key\<close> is \<open>UNIQUE\<close>.
\<close>

definition paymentRepository_Create ::
  "env \<Rightarrow> Payment \<Rightarrow> payment_db \<Rightarrow> error + (Payment \<times> payment_db)" where
  "paymentRepository_Create e payment db =
     (if fails e CallPaymentCreate then
        Inl (Errorf ''failed to create payment'' (Some DriverError))
      else if \<exists>r \<in> set (payments db). pay_IdempotencyKey r = pay_IdempotencyKey payment then
        Inl (Errorf ''duplicate idempotency key'' (Some UniqueViolation))
      else
        (let payment' = payment\<lparr>pay_ID := next_payment_id db\<rparr>
         in Inr (payment',
                 db\<lparr>payments := payments db @ [payment'],
                    next_payment_id := next_payment_id db + 1\<rparr>)))"

definition paymentRepository_FindByIdempotencyKey ::
  "env \<Rightarrow> payment_db \<Rightarrow> string \<Rightarrow> error + Payment" where
  "paymentRepository_FindByIdempotencyKey e db k =
     (if fails e CallPaymentFindByIdempotencyKey then
        Inl (Errorf ''failed to find payment'' (Some DriverError))
      else case find (\<lambda>r. pay_IdempotencyKey r = k) (payments db) of
        None \<Rightarrow> Inl (Errorf (''payment not found with idempotency key: '' @ k) None)
      | Some r \<Rightarrow> Inr r)"

text \<open>\<open>... WHERE order_id = $1 ORDER BY created_at DESC LIMIT 1\<close>: the newest payment of the order.\<close>

definition newest :: "Payment list \<Rightarrow> Payment option" where
  "newest rows =
     foldl (\<lambda>acc r. case acc of
                       None \<Rightarrow> Some r
                     | Some q \<Rightarrow> if pay_CreatedAt q < pay_CreatedAt r then Some r else Some q)
           None rows"

definition paymentRepository_FindByOrderID ::
  "env \<Rightarrow> payment_db \<Rightarrow> int \<Rightarrow> error + Payment" where
  "paymentRepository_FindByOrderID e db orderID =
     (if fails e CallPaymentFindByOrderID then
        Inl (Errorf ''failed to find payment'' (Some DriverError))
      else case newest (filter (\<lambda>r. pay_OrderID r = orderID) (payments db)) of
        None \<Rightarrow> Inl (Errorf (''payment not found for order: '' @ FormatInt orderID) None)
      | Some r \<Rightarrow> Inr r)"

definition paymentRepository_UpdateStatus ::
  "env \<Rightarrow> payment_db \<Rightarrow> int \<Rightarrow> PaymentStatus \<Rightarrow> string \<Rightarrow> error + payment_db" where
  "paymentRepository_UpdateStatus e db i status reason =
     (if fails e CallPaymentUpdateStatus then
        Inl (Errorf ''failed to update payment status'' (Some DriverError))
      else
        Inr (db\<lparr>payments :=
                  map (\<lambda>r. if pay_ID r = i
                            then r\<lparr>pay_Status := status, pay_Reason := reason,
                                   pay_UpdatedAt := now e\<rparr>
                            else r)
                      (payments db)\<rparr>))"

definition payment_commit :: "outbox_tx \<Rightarrow> payment_db \<Rightarrow> payment_db" where
  "payment_commit tx db =
     db\<lparr>payment_outbox := payment_outbox db @ tx,
        next_payment_outbox_id := next_payment_outbox_id db + int (length tx)\<rparr>"

subsection \<open>\<open>paymentService\<close>\<close>

record PaymentResult =
  TransactionID :: string
  Status :: string

definition processPayment :: "env \<Rightarrow> int \<Rightarrow> int \<Rightarrow> error + PaymentResult" where
  "processPayment e orderID amount =
     (if declined e then
        Inl (AppError ErrCodePaymentDeclined ''payment declined by gateway'' None)
      else
        Inr \<lparr>TransactionID = ''PG-TXN-'' @ FormatInt orderID @ ''-'' @ FormatInt (int (now e)),
             Status = ''SUCCESS''\<rparr>)"

definition marshal_PaymentFailed :: "BaseEvent \<Rightarrow> int \<Rightarrow> string \<Rightarrow> json" where
  "marshal_PaymentFailed b orderID reason =
     JObject (marshal_base b @
       [(''orderId'', JNumber orderID), (''reason'', JString reason)])"

definition marshal_PaymentCompleted :: "BaseEvent \<Rightarrow> Payment \<Rightarrow> json" where
  "marshal_PaymentCompleted b payment =
     JObject (marshal_base b @
       [(''orderId'', JNumber (pay_OrderID payment)),
        (''paymentId'', JNumber (pay_ID payment)),
        (''amount'', JNumber (pay_Amount payment)),
        (''paymentType'', JString (pay_PaymentType payment))])"

definition marshal_PaymentRefunded :: "BaseEvent \<Rightarrow> Payment \<Rightarrow> json" where
  "marshal_PaymentRefunded b payment =
     JObject (marshal_base b @
       [(''orderId'', JNumber (pay_OrderID payment)),
        (''paymentId'', JNumber (pay_ID payment)),
        (''amount'', JNumber (pay_Amount payment))])"

text \<open>
  \<open>publishPaymentFailed\<close> writes the failure event through the open transaction,
  commits, and then returns an error that names the reason.
\<close>

definition publishPaymentFailed ::
  "env \<Rightarrow> OrderCreatedEvent \<Rightarrow> string \<Rightarrow> payment_db \<Rightarrow> error option \<times> payment_db" where
  "publishPaymentFailed e evt reason db =
     (if fails e CallMarshal then
        (Some (AppError ErrCodeSerializationError ''failed to marshal event''
                 (Some DriverError)), db)
      else
        (case outboxRepository_InsertTx e (next_payment_outbox_id db) []
                \<lparr>ob_ID = 0, ob_AggregateType = ''payment'',
                 ob_AggregateID = oc_OrderID evt,
                 ob_EventType = EventPaymentFailed,
                 ob_Payload =
                   marshal_PaymentFailed
                     \<lparr>EventID = uuid1 e, EventType = EventPaymentFailed, SchemaVersion = 1,
                      OccurredAt = now e, CorrelationID = CorrelationID evt\<rparr>
                     (oc_OrderID evt) reason,
                 ob_Status = ''PENDING'', ob_CreatedAt = now e, ob_SentAt = None\<rparr> of
           Inl err \<Rightarrow>
             (Some (AppError ErrCodeDatabaseError ''failed to insert outbox event''
                      (Some err)), db)
         | Inr tx \<Rightarrow>
             if fails e CallCommit then
               (Some (AppError ErrCodeDatabaseError ''failed to commit transaction''
                        (Some DriverError)), db)
             else
               (Some (Errorf (''payment failed: '' @ reason) None), payment_commit tx db)))"

definition payment_key :: "OrderCreatedEvent \<Rightarrow> string" where
  "payment_key evt = ''payment-'' @ FormatInt (oc_OrderID evt) @ ''-'' @ EventID evt"

definition paymentService_HandleOrderCreated ::
  "env \<Rightarrow> OrderCreatedEvent \<Rightarrow> payment_db \<Rightarrow> error option \<times> payment_db" where
  "paymentService_HandleOrderCreated e evt db =
     (case paymentRepository_FindByIdempotencyKey e db (payment_key evt) of
        Inr existing \<Rightarrow> (None, db)
      | Inl _ \<Rightarrow>
          if fails e CallBeginTx then
            (Some (AppError ErrCodeDatabaseError ''failed to begin transaction''
                     (Some DriverError)), db)
          else
            (case processPayment e (oc_OrderID evt) (oc_Amount evt) of
               Inl err \<Rightarrow> publishPaymentFailed e evt (error_text e err) db
             | Inr paymentResult \<Rightarrow>
                 (case paymentRepository_Create e
                         \<lparr>pay_ID = 0, pay_OrderID = oc_OrderID evt,
                          pay_Amount = oc_Amount evt, pay_PaymentType = ''CARD'',
                          pay_Status = PaymentStatusCompleted,
                          pay_IdempotencyKey = payment_key evt,
                          pay_PaymentGatewayTxID = TransactionID paymentResult,
                          pay_Reason = '''', pay_CreatedAt = now e,
                          pay_UpdatedAt = now e\<rparr> db of
                    Inl err \<Rightarrow>
                      (Some (AppError ErrCodeDatabaseError ''failed to create payment''
                               (Some err)), db)
                  | Inr (payment, db1) \<Rightarrow>
                      if fails e CallMarshal then
                        (Some (AppError ErrCodeSerializationError ''failed to marshal event''
                                 (Some DriverError)), db1)
                      else
                        (case outboxRepository_InsertTx e (next_payment_outbox_id db1) []
                                \<lparr>ob_ID = 0, ob_AggregateType = ''payment'',
                                 ob_AggregateID = pay_ID payment,
                                 ob_EventType = EventPaymentCompleted,
                                 ob_Payload =
                                   marshal_PaymentCompleted
                                     \<lparr>EventID = uuid1 e, EventType = EventPaymentCompleted,
                                      SchemaVersion = 1, OccurredAt = now e,
                                      CorrelationID = CorrelationID evt\<rparr> payment,
                                 ob_Status = ''PENDING'', ob_CreatedAt = now e,
                                 ob_SentAt = None\<rparr> of
                           Inl err \<Rightarrow>
                             (Some (AppError ErrCodeDatabaseError
                                      ''failed to insert outbox event'' (Some err)), db1)
                         | Inr tx \<Rightarrow>
                             if fails e CallCommit then
                               (Some (AppError ErrCodeDatabaseError
                                        ''failed to commit transaction'' (Some DriverError)),
                                db1)
                             else (None, payment_commit tx db1)))))"

definition paymentService_HandleStockReservationFailed ::
  "env \<Rightarrow> StockReservationFailedEvent \<Rightarrow> payment_db \<Rightarrow> error option \<times> payment_db" where
  "paymentService_HandleStockReservationFailed e evt db =
     (case paymentRepository_FindByOrderID e db (sf_OrderID evt) of
        Inl err \<Rightarrow> (Some err, db)
      | Inr payment \<Rightarrow>
          if pay_Status payment = PaymentStatusRefunded then (None, db)
          else if fails e CallBeginTx then
            (Some (AppError ErrCodeDatabaseError ''failed to begin transaction''
                     (Some DriverError)), db)
          else
            (case paymentRepository_UpdateStatus e db (pay_ID payment) PaymentStatusRefunded
                    (sf_Reason evt) of
               Inl err \<Rightarrow>
                 (Some (AppError ErrCodeDatabaseError ''failed to update payment status''
                          (Some err)), db)
             | Inr db1 \<Rightarrow>
                 if fails e CallMarshal then
                   (Some (AppError ErrCodeSerializationError ''failed to marshal event''
                            (Some DriverError)), db1)
                 else
                   (case outboxRepository_InsertTx e (next_payment_outbox_id db1) []
                           \<lparr>ob_ID = 0, ob_AggregateType = ''payment'',
                            ob_AggregateID = pay_ID payment,
                            ob_EventType = EventPaymentRefunded,
                            ob_Payload =
                              marshal_PaymentRefunded
                                \<lparr>EventID = uuid1 e, EventType = EventPaymentRefunded,
                                 SchemaVersion = 1, OccurredAt = now e,
                                 CorrelationID = CorrelationID evt\<rparr> payment,
                            ob_Status = ''PENDING'', ob_CreatedAt = now e,
                            ob_SentAt = None\<rparr> of
                      Inl err \<Rightarrow>
                        (Some (AppError ErrCodeDatabaseError ''failed to insert outbox event''
                                 (Some err)), db1)
                    | Inr tx \<Rightarrow>
                        if fails e CallCommit then
                          (Some (AppError ErrCodeDatabaseError ''failed to commit transaction''
                                   (Some DriverError)), db1)
                        else (None, payment_commit tx db1))))"

section \<open>Inventory service\<close>

subsection \<open>Tables\<close>

record InventoryRow =
  inv_ProductID :: int
  inv_AvailableQty :: int
  inv_ReservedQty :: int
  inv_Version :: int
  inv_UpdatedAt :: nat

datatype ReservationStatus = RESERVED | CONFIRMED | CANCELED | EXPIRED

record StockReservation =
  rsv_ID :: int
  rsv_OrderID :: int
  rsv_ProductID :: int
  rsv_Quantity :: int
  rsv_Status :: ReservationStatus
  rsv_IdempotencyKey :: string
  rsv_ExpiredAt :: nat
  rsv_CreatedAt :: nat
  rsv_UpdatedAt :: nat

record inventory_db =
  inventory :: "InventoryRow list"
  reservations :: "StockReservation list"
  next_reservation_id :: int
  inventory_outbox :: "OutboxEvent list"
  next_inventory_outbox_id :: int

text \<open>
  Both handlers of the inventory service write through the transaction handle only.
  A handler therefore works on a copy of the database: \<open>tx.Commit()\<close> makes the copy
  the database, an error return (the deferred \<open>tx.Rollback()\<close>) keeps the database as
  it was.
\<close>

definition insert_outbox ::
  "env \<Rightarrow> string \<Rightarrow> int \<Rightarrow> string \<Rightarrow> json \<Rightarrow> inventory_db \<Rightarrow> inventory_db" where
  "insert_outbox e aggregateType aggregateID eventType payload tx =
     tx\<lparr>inventory_outbox :=
          inventory_outbox tx @
            [\<lparr>ob_ID = next_inventory_outbox_id tx, ob_AggregateType = aggregateType,
              ob_AggregateID = aggregateID, ob_EventType = eventType, ob_Payload = payload,
              ob_Status = ''PENDING'', ob_CreatedAt = now e, ob_SentAt = None\<rparr>],
        next_inventory_outbox_id := next_inventory_outbox_id tx + 1\<rparr>"

subsection \<open>\<open>inventoryService.HandlePaymentCompleted\<close>\<close>

definition marshal_StockReservationFailed :: "BaseEvent \<Rightarrow> int \<Rightarrow> int \<Rightarrow> string \<Rightarrow> json" where
  "marshal_StockReservationFailed b orderID quantity reason =
     JObject (marshal_base b @
       [(''orderId'', JNumber orderID), (''quantity'', JNumber quantity),
        (''reason'', JString reason)])"

definition marshal_Stock :: "BaseEvent \<Rightarrow> int \<Rightarrow> int \<Rightarrow> int \<Rightarrow> json" where
  "marshal_Stock b orderID reservationID quantity =
     JObject (marshal_base b @
       [(''orderId'', JNumber orderID), (''reservationId'', JNumber reservationID),
        (''quantity'', JNumber quantity)])"

text \<open>
  \<open>publishStockReservationFailed\<close>: \<open>db\<close> is the database before the transaction, \<open>tx\<close>
  the state inside it. After a successful commit the function still returns an error,
  the one that names the reason.
\<close>

definition publishStockReservationFailed ::
  "env \<Rightarrow> inventory_db \<Rightarrow> inventory_db \<Rightarrow> PaymentCompletedEvent \<Rightarrow> string \<Rightarrow>
   error option \<times> inventory_db" where
  "publishStockReservationFailed e db tx evt reason =
     (if fails e CallOutboxInsert then (Some DriverError, db)
      else if fails e CallCommit then (Some DriverError, db)
      else
        (Some (Errorf (''stock reservation failed: '' @ reason) None),
         insert_outbox e ''order'' (pc_OrderID evt) EventStockReservationFailed
           (marshal_StockReservationFailed
              \<lparr>EventID = uuid1 e, EventType = EventStockReservationFailed, SchemaVersion = 1,
               OccurredAt = now e, CorrelationID = CorrelationID evt\<rparr>
              (pc_OrderID evt) 1 reason)
           tx))"

definition reservation_key :: "PaymentCompletedEvent \<Rightarrow> string" where
  "reservation_key evt =
     ''stock-reservation-'' @ FormatInt (pc_OrderID evt) @ ''-'' @ EventID evt"

text \<open>
  \<open>UPDATE inventory SET available_quantity = available_quantity - $1,
  reserved_quantity = reserved_quantity + $1, version = version + 1, updated_at = NOW()
  WHERE product_id = $2 AND version = $3\<close>.
\<close>

definition reserve_row :: "env \<Rightarrow> int \<Rightarrow> int \<Rightarrow> int \<Rightarrow> InventoryRow \<Rightarrow> InventoryRow" where
  "reserve_row e quantity productID version r =
     (if inv_ProductID r = productID \<and> inv_Version r = version
      then r\<lparr>inv_AvailableQty := inv_AvailableQty r - quantity,
             inv_ReservedQty := inv_ReservedQty r + quantity,
             inv_Version := inv_Version r + 1,
             inv_UpdatedAt := now e\<rparr>
      else r)"

definition inventoryService_HandlePaymentCompleted ::
  "env \<Rightarrow> PaymentCompletedEvent \<Rightarrow> inventory_db \<Rightarrow> error option \<times> inventory_db" where
  "inventoryService_HandlePaymentCompleted e evt db =
     (if \<not> fails e CallReservationFindByKey \<and>
         (\<exists>r \<in> set (reservations db). rsv_IdempotencyKey r = reservation_key evt) then
        (None, db)
      else if fails e CallBeginTx then
        (Some (AppError ErrCodeDatabaseError ''failed to begin transaction''
                 (Some DriverError)), db)
      else
        (let productID = 1; quantity = 1 in
         case (if fails e CallInventorySelect then None
               else find (\<lambda>r. inv_ProductID r = productID) (inventory db)) of
           None \<Rightarrow> publishStockReservationFailed e db db evt ''product not found''
         | Some row \<Rightarrow>
             if inv_AvailableQty row < quantity then
               publishStockReservationFailed e db db evt ''insufficient stock''
             else if fails e CallInventoryUpdate then
               (Some (AppError ErrCodeDatabaseError ''failed to update inventory''
                        (Some DriverError)), db)
             else
               (let affected =
                      length (filter (\<lambda>r. inv_ProductID r = productID \<and>
                                           inv_Version r = inv_Version row) (inventory db));
                    tx1 = db\<lparr>inventory :=
                               map (reserve_row e quantity productID (inv_Version row))
                                   (inventory db)\<rparr>
                in
                if affected = 0 then
                  publishStockReservationFailed e db tx1 evt ''version conflict''
                else if fails e CallReservationInsert then
                  (Some (AppError ErrCodeDatabaseError ''failed to create reservation''
                           (Some DriverError)), db)
                else if \<exists>r \<in> set (reservations tx1).
                          rsv_IdempotencyKey r = reservation_key evt then
                  (Some (AppError ErrCodeDatabaseError ''failed to create reservation''
                           (Some UniqueViolation)), db)
                else
                  (let reservationID = next_reservation_id tx1;
                       tx2 = tx1\<lparr>reservations :=
                                  reservations tx1 @
                                    [\<lparr>rsv_ID = reservationID, rsv_OrderID = pc_OrderID evt,
                                      rsv_ProductID = productID, rsv_Quantity = quantity,
                                      rsv_Status = RESERVED,
                                      rsv_IdempotencyKey = reservation_key evt,
                                      rsv_ExpiredAt = now e + 1800, rsv_CreatedAt = now e,
                                      rsv_UpdatedAt = now e\<rparr>],
                                next_reservation_id := reservationID + 1\<rparr>
                   in
                   if fails e CallOutboxInsert then
                     (Some (AppError ErrCodeDatabaseError ''failed to insert outbox event''
                              (Some DriverError)), db)
                   else if fails e CallCommit then
                     (Some (AppError ErrCodeDatabaseError ''failed to commit transaction''
                              (Some DriverError)), db)
                   else
                     (None,
                      insert_outbox e ''stock_reservation'' reservationID EventStockReserved
                        (marshal_Stock
                           \<lparr>EventID = uuid1 e, EventType = EventStockReserved,
                            SchemaVersion = 1, OccurredAt = now e,
                            CorrelationID = CorrelationID evt\<rparr>
                           (pc_OrderID evt) reservationID quantity)
                        tx2)))))"

subsection \<open>\<open>inventoryService.HandlePaymentRefunded\<close>\<close>

text \<open>
  \<open>UPDATE inventory SET available_quantity = available_quantity + $1,
  reserved_quantity = reserved_quantity - $1, version = version + 1, updated_at = NOW()
  WHERE product_id = $2\<close>.
\<close>

definition restore_row :: "env \<Rightarrow> int \<Rightarrow> int \<Rightarrow> InventoryRow \<Rightarrow> InventoryRow" where
  "restore_row e quantity productID r =
     (if inv_ProductID r = productID
      then r\<lparr>inv_AvailableQty := inv_AvailableQty r + quantity,
             inv_ReservedQty := inv_ReservedQty r - quantity,
             inv_Version := inv_Version r + 1,
             inv_UpdatedAt := now e\<rparr>
      else r)"

definition cancel_reservation :: "env \<Rightarrow> int \<Rightarrow> StockReservation \<Rightarrow> StockReservation" where
  "cancel_reservation e reservationID r =
     (if rsv_ID r = reservationID
      then r\<lparr>rsv_Status := CANCELED, rsv_UpdatedAt := now e\<rparr>
      else r)"

definition inventoryService_HandlePaymentRefunded ::
  "env \<Rightarrow> PaymentRefundedEvent \<Rightarrow> inventory_db \<Rightarrow> error option \<times> inventory_db" where
  "inventoryService_HandlePaymentRefunded e evt db =
     (case (if fails e CallReservationFindByOrder then None
            else find (\<lambda>r. rsv_OrderID r = pr_OrderID evt \<and> rsv_Status r = RESERVED)
                   (reservations db)) of
        None \<Rightarrow> (None, db)
      | Some reservation \<Rightarrow>
          if fails e CallBeginTx then (Some DriverError, db)
          else if fails e CallInventoryRestore then (Some DriverError, db)
          else
            (let tx1 = db\<lparr>inventory :=
                            map (restore_row e (rsv_Quantity reservation)
                                   (rsv_ProductID reservation))
                                (inventory db)\<rparr>
             in
             if fails e CallReservationCancel then (Some DriverError, db)
             else
               (let tx2 = tx1\<lparr>reservations :=
                               map (cancel_reservation e (rsv_ID reservation))
                                   (reservations tx1)\<rparr>
                in
                if fails e CallOutboxInsert then (Some DriverError, db)
                else if fails e CallCommit then (Some DriverError, db)
                else
                  (None,
                   insert_outbox e ''stock_reservation'' (rsv_ID reservation)
                     EventStockRestored
                     (marshal_Stock
                        \<lparr>EventID = uuid1 e, EventType = EventStockRestored, SchemaVersion = 1,
                         OccurredAt = now e, CorrelationID = CorrelationID evt\<rparr>
                        (pr_OrderID evt) (rsv_ID reservation) (rsv_Quantity reservation))
                     tx2))))"

subsection \<open>Traces of the inventory consumer\<close>

datatype inventory_event =
    PaymentCompleted PaymentCompletedEvent
  | PaymentRefunded PaymentRefundedEvent

fun inventory_handle ::
  "env \<Rightarrow> inventory_event \<Rightarrow> inventory_db \<Rightarrow> error option \<times> inventory_db" where
  "inventory_handle e (PaymentCompleted evt) db = inventoryService_HandlePaymentCompleted e evt db"
| "inventory_handle e (PaymentRefunded evt) db = inventoryService_HandlePaymentRefunded e evt db"

text \<open>Consuming a sequence of events, each in its own environment.\<close>

fun inventory_consume :: "(env \<times> inventory_event) list \<Rightarrow> inventory_db \<Rightarrow> inventory_db" where
  "inventory_consume [] db = db"
| "inventory_consume ((e, ev) # rest) db = inventory_consume rest (snd (inventory_handle e ev db))"

text \<open>The sum \<open>availableQty + reservedQty\<close> of a product.\<close>

definition stock_total :: "inventory_db \<Rightarrow> int \<Rightarrow> int" where
  "stock_total db p =
     sum_list (map (\<lambda>r. inv_AvailableQty r + inv_ReservedQty r)
                 (filter (\<lambda>r. inv_ProductID r = p) (inventory db)))"

text \<open>The rows a handler has added to the outbox.\<close>

definition emitted :: "inventory_db \<Rightarrow> inventory_db \<Rightarrow> OutboxEvent list" where
  "emitted db db' = drop (length (inventory_outbox db)) (inventory_outbox db')"

definition payload_field :: "string \<Rightarrow> OutboxEvent \<Rightarrow> json option" where
  "payload_field name row =
     (case unmarshal_map (ob_Payload row) of None \<Rightarrow> None | Some m \<Rightarrow> m name)"

text \<open>The quantities of the inventory table, row by row.\<close>

definition quantities :: "inventory_db \<Rightarrow> (int \<times> int \<times> int) list" where
  "quantities db =
     map (\<lambda>r. (inv_ProductID r, inv_AvailableQty r, inv_ReservedQty r)) (inventory db)"

text \<open>The lookup of \<open>HandlePaymentRefunded\<close>: the active reservation of an order.\<close>

definition active_reservation :: "inventory_db \<Rightarrow> int \<Rightarrow> StockReservation option" where
  "active_reservation db orderID =
     find (\<lambda>r. rsv_OrderID r = orderID \<and> rsv_Status r = RESERVED) (reservations db)"

subsection \<open>The reservation of a requested quantity, as a property\<close>

definition insufficient_stock_emitted :: "inventory_db \<Rightarrow> inventory_db \<Rightarrow> bool" where
  "insufficient_stock_emitted db db' =
     (\<exists>row \<in> set (emitted db db').
        ob_EventType row = EventStockReservationFailed \<and>
        payload_field ''reason'' row = Some (JString ''insufficient stock''))"

text \<open>
  Handling \<open>evt\<close> reserves quantity \<open>q\<close> of product \<open>p\<close>: when the product has a row,
  \<open>StockReservationFailed\<close> with the reason "insufficient stock" is emitted exactly
  when fewer than \<open>q\<close> are available, and otherwise the row has \<open>q\<close> moved from
  available to reserved.
\<close>

definition reserves_requested ::
  "int \<Rightarrow> int \<Rightarrow> env \<Rightarrow> PaymentCompletedEvent \<Rightarrow> inventory_db \<Rightarrow> bool" where
  "reserves_requested p q e evt db =
     (case find (\<lambda>r. inv_ProductID r = p) (inventory db) of
        None \<Rightarrow> True
      | Some row \<Rightarrow>
          (let db' = snd (inventoryService_HandlePaymentCompleted e evt db) in
           (insufficient_stock_emitted db db' \<longleftrightarrow> inv_AvailableQty row < q) \<and>
           (\<not> inv_AvailableQty row < q \<longrightarrow>
              find (\<lambda>r. inv_ProductID r = p) (inventory db') =
                Some (row\<lparr>inv_AvailableQty := inv_AvailableQty row - q,
                          inv_ReservedQty := inv_ReservedQty row + q,
                          inv_Version := inv_Version row + 1,
                          inv_UpdatedAt := now e\<rparr>))))"

section \<open>Concrete environments and database states\<close>

text \<open>An environment in which no call fails and the gateway accepts the payment.\<close>

definition env_quiet :: env where
  "env_quiet =
     \<lparr>fails = (\<lambda>c. False), now = 7, uuid0 = ''u0'', uuid1 = ''u1'', uuid2 = ''u2'',
      declined = False, error_text = (\<lambda>err. ''error'')\<rparr>"

definition order_k1 :: Order where
  "order_k1 =
     \<lparr>ord_ID = 12, ord_UserID = 1001, ord_Amount = 50000, ord_Quantity = 1,
      ord_Status = OrderStatusStockReserving, ord_Version = 1,
      ord_IdempotencyKey = ''k1'', ord_CreatedAt = 3, ord_UpdatedAt = 4\<rparr>"

definition db_k1 :: order_db where
  "db_k1 = \<lparr>orders = [order_k1], next_order_id = 13, order_outbox = [], next_outbox_id = 1\<rparr>"

definition db_empty :: order_db where
  "db_empty = \<lparr>orders = [], next_order_id = 1, order_outbox = [], next_outbox_id = 1\<rparr>"

definition cmd_k1 :: CreateOrderCommand where
  "cmd_k1 =
     \<lparr>cmd_UserID = 1001, cmd_Amount = 50000, cmd_Quantity = 1, cmd_IdempotencyKey = ''k1''\<rparr>"

definition cmd_k1_invalid :: CreateOrderCommand where
  "cmd_k1_invalid =
     \<lparr>cmd_UserID = 1001, cmd_Amount = - 5, cmd_Quantity = 0, cmd_IdempotencyKey = ''k1''\<rparr>"

definition env_outbox_down :: env where
  "env_outbox_down = env_quiet\<lparr>fails := (\<lambda>c. c = CallOutboxInsert)\<rparr>"

definition request_zero_amount :: http_request where
  "request_zero_amount =
     \<lparr>http_method = ''POST'',
      http_body = Some \<lparr>req_UserID = 1001, req_Amount = 0, req_Quantity = 1,
                        req_IdempotencyKey = ''k2''\<rparr>\<rparr>"

definition order_completed :: Order where
  "order_completed =
     \<lparr>ord_ID = 12, ord_UserID = 1001, ord_Amount = 50000, ord_Quantity = 1,
      ord_Status = OrderStatusCompleted, ord_Version = 3,
      ord_IdempotencyKey = ''k1'', ord_CreatedAt = 3, ord_UpdatedAt = 6\<rparr>"

definition db_completed :: order_db where
  "db_completed =
     \<lparr>orders = [order_completed], next_order_id = 13, order_outbox = [], next_outbox_id = 5\<rparr>"

definition delivery_failed_12 :: DeliveryFailedEvent where
  "delivery_failed_12 =
     \<lparr>EventID = ''ev-9'', EventType = ''delivery.failed.v1'', SchemaVersion = 1,
      OccurredAt = 6, CorrelationID = ''saga-1'', df_OrderID = 12,
      df_Reason = ''address unreachable''\<rparr>"


definition failing_handler :: "Message \<Rightarrow> nat \<Rightarrow> error option \<times> nat" where
  "failing_handler m s = (Some DriverError, s)"

definition message_0 :: Message where
  "message_0 =
     \<lparr>Topic = ''payment.completed.v1'', Partition = 0, Offset = 41, Key = '''',
      Value = JObject [(''orderId'', JNumber 12)]\<rparr>"

definition row_65 :: OutboxEvent where
  "row_65 =
     \<lparr>ob_ID = 1, ob_AggregateType = ''order'', ob_AggregateID = 65,
      ob_EventType = EventOrderCreated,
      ob_Payload =
        marshal_OrderCreated
          \<lparr>EventID = ''ev-1'', EventType = EventOrderCreated, SchemaVersion = 1,
           OccurredAt = 7, CorrelationID = ''saga-1''\<rparr>
          \<lparr>ord_ID = 65, ord_UserID = 1001, ord_Amount = 50000, ord_Quantity = 1,
           ord_Status = OrderStatusPending, ord_Version = 0, ord_IdempotencyKey = ''k65'',
           ord_CreatedAt = 7, ord_UpdatedAt = 7\<rparr>,
      ob_Status = ''PENDING'', ob_CreatedAt = 7, ob_SentAt = None\<rparr>"

definition db_65 :: order_db where
  "db_65 = \<lparr>orders = [], next_order_id = 66, order_outbox = [row_65], next_outbox_id = 2\<rparr>"

text \<open>
  The lookup by idempotency key fails (a transient database error); every other call
  works.
\<close>

definition env_lookup_down :: env where
  "env_lookup_down = env_quiet\<lparr>fails := (\<lambda>c. c = CallPaymentFindByIdempotencyKey)\<rparr>"

definition order_created_7 :: OrderCreatedEvent where
  "order_created_7 =
     \<lparr>EventID = ''ev-1'', EventType = EventOrderCreated, SchemaVersion = 1, OccurredAt = 5,
      CorrelationID = ''saga-7'', oc_OrderID = 7, oc_UserID = 1001, oc_Amount = 50000,
      oc_Quantity = 1\<rparr>"

definition payment_7 :: Payment where
  "payment_7 =
     \<lparr>pay_ID = 1, pay_OrderID = 7, pay_Amount = 50000, pay_PaymentType = ''CARD'',
      pay_Status = PaymentStatusCompleted, pay_IdempotencyKey = ''payment-7-ev-1'',
      pay_PaymentGatewayTxID = ''PG-TXN-7-5'', pay_Reason = '''', pay_CreatedAt = 5,
      pay_UpdatedAt = 5\<rparr>"

definition db_paid_7 :: payment_db where
  "db_paid_7 =
     \<lparr>payments = [payment_7], next_payment_id = 2, payment_outbox = [],
      next_payment_outbox_id = 2\<rparr>"

definition payment_completed_12 :: PaymentCompletedEvent where
  "payment_completed_12 =
     \<lparr>EventID = ''ev-2'', EventType = EventPaymentCompleted, SchemaVersion = 1,
      OccurredAt = 6, CorrelationID = ''saga-12'', pc_OrderID = 12, pc_PaymentID = 4,
      pc_Amount = 50000, pc_PaymentType = ''CARD''\<rparr>"

definition payment_refunded_12 :: PaymentRefundedEvent where
  "payment_refunded_12 =
     \<lparr>EventID = ''ev-3'', EventType = EventPaymentRefunded, SchemaVersion = 1,
      OccurredAt = 8, CorrelationID = ''saga-12'', pr_OrderID = 12, pr_PaymentID = 4,
      pr_Amount = 50000\<rparr>"

text \<open>Product 1 with five units available, product 2 with fifty.\<close>

definition db_stock :: inventory_db where
  "db_stock =
     \<lparr>inventory =
        [\<lparr>inv_ProductID = 1, inv_AvailableQty = 5, inv_ReservedQty = 0, inv_Version = 0,
          inv_UpdatedAt = 0\<rparr>,
         \<lparr>inv_ProductID = 2, inv_AvailableQty = 50, inv_ReservedQty = 0, inv_Version = 0,
          inv_UpdatedAt = 0\<rparr>],
      reservations = [], next_reservation_id = 1, inventory_outbox = [],
      next_inventory_outbox_id = 1\<rparr>"

definition db_unpaid :: payment_db where
  "db_unpaid =
     \<lparr>payments = [], next_payment_id = 1, payment_outbox = [], next_payment_outbox_id = 1\<rparr>"

definition stock_reservation_failed_7 :: StockReservationFailedEvent where
  "stock_reservation_failed_7 =
     \<lparr>EventID = ''ev-4'', EventType = EventStockReservationFailed, SchemaVersion = 1,
      OccurredAt = 6, CorrelationID = ''saga-7'', sf_OrderID = 7, sf_Quantity = 1,
      sf_Reason = ''insufficient stock''\<rparr>"

section \<open>Properties of order creation\<close>

lemma find_Some_key:
  "find (\<lambda>r. f r = k) xs = Some x \<Longrightarrow> x \<in> set xs \<and> f x = k"
  by (induction xs) (auto split: if_splits)


lemma find_append_fresh:
  "\<forall>r \<in> set xs. \<not> P r \<Longrightarrow> P y \<Longrightarrow> find P (xs @ [y]) = Some y"
  by (induction xs) auto

text \<open>
  C10. \<open>CreateOrder\<close> looks the idempotency key up before it validates the command:
  when the key is present and the lookup returns an existing order, the call succeeds
  with that order's id and status and leaves the database as it was, whatever the
  amount and the quantity of the command are.
\<close>

theorem CreateOrder_existing_key_skips_validation:
  assumes "cmd_IdempotencyKey cmd \<noteq> ''''"
    and "orderRepository_FindByIdempotencyKey e db (cmd_IdempotencyKey cmd) = Inr existing"
  shows "CreateOrder e cmd db =
           (Inr \<lparr>res_OrderID = ord_ID existing, res_Status = ord_Status existing\<rparr>, db)"
  using assms by (simp add: CreateOrder_def existing_order_def)

theorem CreateOrder_existing_key_skips_validation_witness:
  "cmd_IdempotencyKey cmd_k1_invalid \<noteq> '''' \<and>
   orderRepository_FindByIdempotencyKey env_quiet db_k1 (cmd_IdempotencyKey cmd_k1_invalid)
     = Inr order_k1 \<and>
   cmd_Amount cmd_k1_invalid \<le> 0 \<and> cmd_Quantity cmd_k1_invalid \<le> 0 \<and>
   CreateOrder env_quiet cmd_k1_invalid db_k1
     = (Inr \<lparr>res_OrderID = 12, res_Status = OrderStatusStockReserving\<rparr>, db_k1)"
  using CreateOrder_existing_key_skips_validation [of cmd_k1_invalid env_quiet db_k1 order_k1]
  by (simp add: orderRepository_FindByIdempotencyKey_def cmd_k1_invalid_def env_quiet_def
        db_k1_def order_k1_def)



text \<open>
  C9 (as the code behaves). \<open>POST /orders\<close> with a non-positive amount or quantity and
  an idempotency key that no stored order carries creates nothing and is answered with
  status 500: the handler maps every error of \<open>CreateOrder\<close> to
  \<open>http.StatusInternalServerError\<close>.
\<close>

theorem HTTPHandler_CreateOrder_invalid_is_500:
  assumes "http_method r = ''POST''"
    and "http_body r = Some req"
    and "req_Amount req \<le> 0 \<or> req_Quantity req \<le> 0"
    and "\<forall>x \<in> set (orders db).
           ord_IdempotencyKey x \<noteq>
             (if req_IdempotencyKey req = '''' then uuid0 e else req_IdempotencyKey req)"
  shows "fst (fst (HTTPHandler_CreateOrder e r db)) = StatusInternalServerError \<and>
         snd (HTTPHandler_CreateOrder e r db) = db"
proof -
  let ?k = "if req_IdempotencyKey req = '''' then uuid0 e else req_IdempotencyKey req"
  from assms(4) have "find (\<lambda>x. ord_IdempotencyKey x = ?k) (orders db) = None"
    by (simp add: find_None_iff)
  then have "existing_order e db ?k = None"
    by (simp add: existing_order_def orderRepository_FindByIdempotencyKey_def)
  with assms(1,2,3) show ?thesis
    by (auto simp: HTTPHandler_CreateOrder_def CreateOrder_def)
qed

theorem HTTPHandler_CreateOrder_invalid_is_500_witness:
  "http_method request_zero_amount = ''POST'' \<and>
   (\<exists>req. http_body request_zero_amount = Some req \<and> req_Amount req \<le> 0) \<and>
   fst (fst (HTTPHandler_CreateOrder env_quiet request_zero_amount db_k1)) = 500 \<and>
   snd (HTTPHandler_CreateOrder env_quiet request_zero_amount db_k1) = db_k1"
  using HTTPHandler_CreateOrder_invalid_is_500
          [of request_zero_amount
              "\<lparr>req_UserID = 1001, req_Amount = 0, req_Quantity = 1,
                req_IdempotencyKey = ''k2''\<rparr>" db_k1 env_quiet]
  by (simp add: request_zero_amount_def db_k1_def order_k1_def StatusInternalServerError_def)

theorem HTTPHandler_CreateOrder_invalid_not_400:
  "fst (fst (HTTPHandler_CreateOrder env_quiet request_zero_amount db_empty))
     = StatusInternalServerError \<and>
   StatusInternalServerError \<noteq> StatusBadRequest \<and>
   orders (snd (HTTPHandler_CreateOrder env_quiet request_zero_amount db_empty)) = []"
  by (simp add: HTTPHandler_CreateOrder_def CreateOrder_def existing_order_def
        orderRepository_FindByIdempotencyKey_def request_zero_amount_def env_quiet_def
        db_empty_def StatusInternalServerError_def StatusBadRequest_def)

text \<open>
  C2 (evaluation of the code). An order that is \<open>COMPLETED\<close> and receives
  \<open>DeliveryFailed\<close> becomes \<open>FAILED\<close>: \<open>HandleDeliveryFailed\<close> updates without looking at
  the current status, although \<open>CanTransitionTo\<close> allows no transition out of
  \<open>COMPLETED\<close>.
\<close>

theorem HandleDeliveryFailed_leaves_terminal_state:
  "status_of db_completed 12 = Some OrderStatusCompleted \<and>
   \<not> CanTransitionTo order_completed OrderStatusFailed \<and>
   fst (orderService_HandleDeliveryFailed env_quiet delivery_failed_12 db_completed) = None \<and>
   status_of (snd (orderService_HandleDeliveryFailed env_quiet delivery_failed_12 db_completed)) 12
     = Some OrderStatusFailed"
  by (simp add: orderService_HandleDeliveryFailed_def forced_transition_def
        orderRepository_FindByID_def orderRepository_UpdateStatusWithVersion_def
        status_of_def CanTransitionTo_def db_completed_def order_completed_def
        delivery_failed_12_def env_quiet_def)

section \<open>Properties of the consumer\<close>

lemma marked_append: "marked (xs @ ys) = marked xs @ marked ys"
  by (induction xs rule: marked.induct) simp_all

lemma handled_then_marked_append:
  "handled_then_marked xs \<Longrightarrow> handled_then_marked (xs @ ys) = handled_then_marked ys"
  by (induction xs rule: handled_then_marked.induct) simp_all

lemma ConsumeClaim_marked:
  "marked (snd (ConsumeClaim handler claim (s, log))) = marked log @ claim"
proof (induction claim arbitrary: s log)
  case Nil
  then show ?case by simp
next
  case (Cons m ms)
  then show ?case by (simp add: marked_append split: prod.splits)
qed

lemma ConsumeClaim_handled_then_marked:
  "handled_then_marked log \<Longrightarrow>
   handled_then_marked (snd (ConsumeClaim handler claim (s, log)))"
proof (induction claim arbitrary: s log)
  case Nil
  then show ?case by simp
next
  case (Cons m ms)
  show ?case
  proof (cases "handler m s")
    case (Pair err s')
    from Cons.prems have "handled_then_marked (log @ [Handled m err, Marked m])"
      by (simp add: handled_then_marked_append)
    from Cons.IH [OF this] Pair show ?thesis by simp
  qed
qed

text \<open>
  C3 (as the code behaves). \<open>ConsumeClaim\<close> marks every message of the claim, in
  order, each directly after the handler has returned for it, whatever the handler
  returned: the marked messages are exactly the messages of the claim, and the log
  alternates between a handler call and the mark of the same message.
\<close>

theorem ConsumeClaim_marks_every_message:
  "marked (snd (ConsumeClaim handler claim (s, []))) = claim \<and>
   handled_then_marked (snd (ConsumeClaim handler claim (s, [])))"
  by (simp add: ConsumeClaim_marked ConsumeClaim_handled_then_marked)

text \<open>
  A handler that returns an error for a message: the message is marked all the same,
  so the bus does not deliver it again.
\<close>

theorem ConsumeClaim_marks_after_error:
  "snd (ConsumeClaim failing_handler [message_0] (0, []))
     = [Handled message_0 (Some DriverError), Marked message_0]"
  by (simp add: failing_handler_def)

section \<open>Properties of the outbox relays\<close>

text \<open>
  C4 (evaluation of the code). The outbox row of order 65: the order service's worker
  publishes it under the key \<open>"A"\<close> (the character with code point 65), the relay of
  the payment and inventory services under the empty key; the decimal rendering of the
  order id is \<open>"65"\<close>.
\<close>

theorem relay_partition_key_not_decimal:
  "map msg_Key (snd (snd (OutboxWorker_process env_quiet (db_65, [])))) = [''A''] \<and>
   FormatInt 65 = ''65'' \<and>
   map msg_Key (snd (startOutboxWorker_tick env_quiet ([row_65], []))) = ['''']"
  by code_simp

text \<open>
  An order id beyond \<open>2 ^ 53\<close> is rounded by the decoding before it becomes a rune:
  \<open>2 ^ 53 + 1\<close> is read as \<open>2 ^ 53\<close>, whose low 32 bits are zero.
\<close>

lemma bit_length_rounded_id: "bit_length 9007199254740993 = 54"
  by (simp add: bit_length.simps)

lemma float64_rounded_id: "float64 9007199254740993 = 9007199254740992"
  by (simp add: float64_def bit_length_rounded_id Let_def)

lemma partition_key_rounded_id:
  "partition_key [''orderId'' \<mapsto> JNumber 9007199254740993] = [char_of (0::int)]"
  by (simp add: partition_key_def float64_rounded_id int64_def rune_def string_of_rune_def)

section \<open>Properties of the payment handler\<close>

lemma payment_key_7: "payment_key order_created_7 = ''payment-7-ev-1''"
  by code_simp

text \<open>
  C6 (as the code behaves). A duplicate \<open>OrderCreated\<close> whose payment is already stored
  and that reaches the insert (the lookup by idempotency key did not answer, the
  transaction began, the gateway accepted): the insert hits the unique index, the
  handler returns an error that wraps the duplicate-key error, and nothing is written,
  neither a payment row nor an outbox row.
\<close>

theorem HandleOrderCreated_duplicate_is_error:
  assumes "\<exists>r \<in> set (payments db). pay_IdempotencyKey r = payment_key evt"
    and "fails e CallPaymentFindByIdempotencyKey"
    and "\<not> fails e CallBeginTx"
    and "\<not> declined e"
    and "\<not> fails e CallPaymentCreate"
  shows "paymentService_HandleOrderCreated e evt db =
           (Some (AppError ErrCodeDatabaseError ''failed to create payment''
                    (Some (Errorf ''duplicate idempotency key'' (Some UniqueViolation)))), db)"
  using assms
  by (simp add: paymentService_HandleOrderCreated_def
        paymentRepository_FindByIdempotencyKey_def processPayment_def
        paymentRepository_Create_def)

theorem HandleOrderCreated_duplicate_is_error_witness:
  "(\<exists>r \<in> set (payments db_paid_7). pay_IdempotencyKey r = payment_key order_created_7) \<and>
   fails env_lookup_down CallPaymentFindByIdempotencyKey \<and>
   \<not> fails env_lookup_down CallBeginTx \<and>
   \<not> declined env_lookup_down \<and>
   \<not> fails env_lookup_down CallPaymentCreate \<and>
   paymentService_HandleOrderCreated env_lookup_down order_created_7 db_paid_7 =
     (Some (AppError ErrCodeDatabaseError ''failed to create payment''
              (Some (Errorf ''duplicate idempotency key'' (Some UniqueViolation)))),
      db_paid_7)"
proof -
  have h1: "\<exists>r \<in> set (payments db_paid_7). pay_IdempotencyKey r = payment_key order_created_7"
    by (simp add: payment_key_7 db_paid_7_def payment_7_def)
  have h2: "fails env_lookup_down CallPaymentFindByIdempotencyKey"
    and h3: "\<not> fails env_lookup_down CallBeginTx"
    and h4: "\<not> declined env_lookup_down"
    and h5: "\<not> fails env_lookup_down CallPaymentCreate"
    by (simp_all add: env_lookup_down_def env_quiet_def)
  from HandleOrderCreated_duplicate_is_error [OF h1 h2 h3 h4 h5] h1 h2 h3 h4 h5
  show ?thesis by (intro conjI)
qed

text \<open>
  The same input, evaluated: the handler does not return success (\<open>None\<close>) when the
  insert hits the unique index.
\<close>

theorem HandleOrderCreated_duplicate_not_success:
  "fst (paymentService_HandleOrderCreated env_lookup_down order_created_7 db_paid_7) \<noteq> None \<and>
   snd (paymentService_HandleOrderCreated env_lookup_down order_created_7 db_paid_7) = db_paid_7"
  by (simp add: paymentService_HandleOrderCreated_def
        paymentRepository_FindByIdempotencyKey_def processPayment_def
        paymentRepository_Create_def payment_key_7 env_lookup_down_def env_quiet_def
        db_paid_7_def payment_7_def)

section \<open>Properties of the inventory handlers\<close>

lemma stock_total_map:
  assumes "\<And>r. inv_ProductID (g r) = inv_ProductID r"
    and "\<And>r. inv_AvailableQty (g r) + inv_ReservedQty (g r)
               = inv_AvailableQty r + inv_ReservedQty r"
  shows "stock_total (db\<lparr>inventory := map g (inventory db)\<rparr>) p = stock_total db p"
proof -
  have "sum_list (map (\<lambda>r. inv_AvailableQty r + inv_ReservedQty r)
                   (filter (\<lambda>r. inv_ProductID r = p) (map g xs)))
        = sum_list (map (\<lambda>r. inv_AvailableQty r + inv_ReservedQty r)
                   (filter (\<lambda>r. inv_ProductID r = p) xs))" for xs
    by (induction xs) (simp_all add: assms)
  then show ?thesis by (simp add: stock_total_def)
qed

lemma stock_total_reserve:
  "stock_total (db\<lparr>inventory := map (reserve_row e q pid v) (inventory db)\<rparr>) p
   = stock_total db p"
  by (rule stock_total_map) (simp_all add: reserve_row_def)

lemma stock_total_restore:
  "stock_total (db\<lparr>inventory := map (restore_row e q pid) (inventory db)\<rparr>) p
   = stock_total db p"
  by (rule stock_total_map) (simp_all add: restore_row_def)

lemma stock_total_insert_outbox:
  "stock_total (insert_outbox e a i t pl tx) p = stock_total tx p"
  by (simp add: stock_total_def insert_outbox_def)

lemma stock_total_reservations:
  "stock_total (tx\<lparr>reservations := rs\<rparr>) p = stock_total tx p"
  "stock_total (tx\<lparr>next_reservation_id := n\<rparr>) p = stock_total tx p"
  by (simp_all add: stock_total_def)

lemma stock_total_publishStockReservationFailed:
  "stock_total tx p = stock_total db p \<Longrightarrow>
   stock_total (snd (publishStockReservationFailed e db tx evt reason)) p = stock_total db p"
  by (simp add: publishStockReservationFailed_def stock_total_insert_outbox)

lemma stock_total_HandlePaymentCompleted:
  "stock_total (snd (inventoryService_HandlePaymentCompleted e evt db)) p = stock_total db p"
  by (simp add: inventoryService_HandlePaymentCompleted_def Let_def
        stock_total_publishStockReservationFailed stock_total_reserve
        stock_total_insert_outbox stock_total_reservations
      split: option.splits)

lemma stock_total_HandlePaymentRefunded:
  "stock_total (snd (inventoryService_HandlePaymentRefunded e evt db)) p = stock_total db p"
  by (simp add: inventoryService_HandlePaymentRefunded_def Let_def stock_total_restore
        stock_total_insert_outbox stock_total_reservations
      split: option.splits)

lemma stock_total_inventory_consume:
  "stock_total (inventory_consume evs db) p = stock_total db p"
proof (induction evs arbitrary: db)
  case Nil
  then show ?case by simp
next
  case (Cons x evs)
  obtain e ev where x: "x = (e, ev)" by (cases x)
  show ?case
    by (cases ev)
       (simp_all add: x Cons.IH stock_total_HandlePaymentCompleted
          stock_total_HandlePaymentRefunded)
qed

lemma find_Some_set: "find P xs = Some x \<Longrightarrow> x \<in> set xs \<and> P x"
  by (induction xs) (auto split: if_splits)


lemma HandlePaymentCompleted_reserved:
  assumes quiet: "\<forall>c. \<not> fails e c"
    and fresh: "\<forall>r \<in> set (reservations db). rsv_IdempotencyKey r \<noteq> reservation_key evt"
    and row: "find (\<lambda>r. inv_ProductID r = 1) (inventory db) = Some row"
    and stock: "1 \<le> inv_AvailableQty row"
  shows "fst (inventoryService_HandlePaymentCompleted e evt db) = None"
    and "inventory (snd (inventoryService_HandlePaymentCompleted e evt db))
           = map (reserve_row e 1 1 (inv_Version row)) (inventory db)"
    and "reservations (snd (inventoryService_HandlePaymentCompleted e evt db))
           = reservations db @
             [\<lparr>rsv_ID = next_reservation_id db, rsv_OrderID = pc_OrderID evt,
               rsv_ProductID = 1, rsv_Quantity = 1, rsv_Status = RESERVED,
               rsv_IdempotencyKey = reservation_key evt, rsv_ExpiredAt = now e + 1800,
               rsv_CreatedAt = now e, rsv_UpdatedAt = now e\<rparr>]"
proof -
  from row have mem: "row \<in> set (inventory db)" and pid: "inv_ProductID row = 1"
    using find_Some_set [of "\<lambda>r. inv_ProductID r = 1" "inventory db" row] by auto
  from fresh have nokey:
    "\<not> (\<exists>r \<in> set (reservations db). rsv_IdempotencyKey r = reservation_key evt)"
    by blast
  from mem pid have affected:
    "filter (\<lambda>r. inv_ProductID r = 1 \<and> inv_Version r = inv_Version row) (inventory db) \<noteq> []"
    by (auto simp: filter_empty_conv)
  from stock have enough: "\<not> inv_AvailableQty row < 1" by simp
  note facts = inventoryService_HandlePaymentCompleted_def insert_outbox_def Let_def
  from quiet nokey row enough affected
  show "fst (inventoryService_HandlePaymentCompleted e evt db) = None"
    by (simp add: facts)
  from quiet nokey row enough affected
  show "inventory (snd (inventoryService_HandlePaymentCompleted e evt db))
           = map (reserve_row e 1 1 (inv_Version row)) (inventory db)"
    by (simp add: facts)
  from quiet nokey row enough affected
  show "reservations (snd (inventoryService_HandlePaymentCompleted e evt db))
           = reservations db @
             [\<lparr>rsv_ID = next_reservation_id db, rsv_OrderID = pc_OrderID evt,
               rsv_ProductID = 1, rsv_Quantity = 1, rsv_Status = RESERVED,
               rsv_IdempotencyKey = reservation_key evt, rsv_ExpiredAt = now e + 1800,
               rsv_CreatedAt = now e, rsv_UpdatedAt = now e\<rparr>]"
    by (simp add: facts)
qed


lemma HandlePaymentRefunded_restored:
  assumes quiet: "\<forall>c. \<not> fails e c"
    and active: "active_reservation db (pr_OrderID evt) = Some rsv"
  shows "fst (inventoryService_HandlePaymentRefunded e evt db) = None"
    and "inventory (snd (inventoryService_HandlePaymentRefunded e evt db))
           = map (restore_row e (rsv_Quantity rsv) (rsv_ProductID rsv)) (inventory db)"
    and "reservations (snd (inventoryService_HandlePaymentRefunded e evt db))
           = map (cancel_reservation e (rsv_ID rsv)) (reservations db)"
  using assms
  by (simp_all add: inventoryService_HandlePaymentRefunded_def active_reservation_def
        insert_outbox_def Let_def)


lemma HandlePaymentRefunded_no_reservation:
  assumes "active_reservation db (pr_OrderID evt) = None"
  shows "inventoryService_HandlePaymentRefunded e evt db = (None, db)"
  using assms
  by (simp add: inventoryService_HandlePaymentRefunded_def active_reservation_def)


lemma distinct_map_eq:
  "distinct (map f xs) \<Longrightarrow> x \<in> set xs \<Longrightarrow> y \<in> set xs \<Longrightarrow> f x = f y \<Longrightarrow> x = y"
  by (meson distinct_map inj_on_def)


lemma restore_reserve_quantities:
  assumes uniq: "distinct (map inv_ProductID (inventory db))"
    and row: "find (\<lambda>r. inv_ProductID r = p) (inventory db) = Some row"
  shows "map (\<lambda>r. (inv_ProductID r, inv_AvailableQty r, inv_ReservedQty r))
           (map (restore_row e2 q p) (map (reserve_row e1 q p (inv_Version row)) (inventory db)))
         = map (\<lambda>r. (inv_ProductID r, inv_AvailableQty r, inv_ReservedQty r)) (inventory db)"
proof -
  let ?quant = "\<lambda>r. (inv_ProductID r, inv_AvailableQty r, inv_ReservedQty r)"
  from row have mem: "row \<in> set (inventory db)" and pid: "inv_ProductID row = p"
    using find_Some_set [of "\<lambda>r. inv_ProductID r = p" "inventory db" row] by auto
  have same: "r = row" if "r \<in> set (inventory db)" "inv_ProductID r = p" for r
  proof (rule distinct_map_eq [OF uniq that(1) mem])
    from that(2) pid show "inv_ProductID r = inv_ProductID row" by simp
  qed
  have step: "?quant (restore_row e2 q p (reserve_row e1 q p (inv_Version row) r)) = ?quant r"
    if "r \<in> set (inventory db)" for r
  proof (cases "inv_ProductID r = p")
    case True
    with same [OF that] have "inv_Version r = inv_Version row" by simp
    with True show ?thesis by (simp add: restore_row_def reserve_row_def)
  next
    case False
    then show ?thesis by (simp add: restore_row_def reserve_row_def)
  qed
  have "map (?quant \<circ> restore_row e2 q p \<circ> reserve_row e1 q p (inv_Version row)) (inventory db)
        = map ?quant (inventory db)"
    by (rule map_cong [OF refl]) (simp add: step)
  then show ?thesis by (simp only: map_map comp_assoc)
qed

text \<open>
  C7. A \<open>PaymentCompleted\<close> that reserves (no call fails, the event is no duplicate,
  product 1 has stock, the order has no active reservation yet) followed by the
  \<open>PaymentRefunded\<close> of the same order:
  \<^item> the reservation moves one unit of product 1 from available to reserved and records
    that quantity and product in the \<open>RESERVED\<close> reservation of the order;
  \<^item> the refund finds that reservation, moves the recorded quantity of the recorded
    product back from reserved to available and cancels the reservation;
  \<^item> every row has the available and the reserved quantity it had before the
    \<open>PaymentCompleted\<close>, so the sum \<open>availableQty + reservedQty\<close> of every product is the
    one before;
  \<^item> the sum is also the one before when the inventory consumer handled any other
    events between the two, whichever calls failed;
  \<^item> on any state, a refund that finds an active reservation restores the quantity
    recorded in it.
  The product ids of the inventory table are distinct (\<open>product_id\<close> is \<open>UNIQUE\<close>).
\<close>

theorem refund_restores_stock_total:
  assumes quiet1: "\<forall>c. \<not> fails e1 c"
    and quiet2: "\<forall>c. \<not> fails e2 c"
    and fresh: "\<forall>r \<in> set (reservations db). rsv_IdempotencyKey r \<noteq> reservation_key paid"
    and inactive: "active_reservation db (pc_OrderID paid) = None"
    and uniq: "distinct (map inv_ProductID (inventory db))"
    and row: "find (\<lambda>r. inv_ProductID r = 1) (inventory db) = Some row"
    and stock: "1 \<le> inv_AvailableQty row"
    and same_order: "pr_OrderID refunded = pc_OrderID paid"
  shows
    "(let db1 = snd (inventoryService_HandlePaymentCompleted e1 paid db);
          db2 = snd (inventoryService_HandlePaymentRefunded e2 refunded db1)
      in inventory db1 = map (reserve_row e1 1 1 (inv_Version row)) (inventory db) \<and>
         (\<exists>rsv. active_reservation db1 (pr_OrderID refunded) = Some rsv \<and>
                rsv_Quantity rsv = 1 \<and> rsv_ProductID rsv = 1 \<and>
                inventory db2
                  = map (restore_row e2 (rsv_Quantity rsv) (rsv_ProductID rsv)) (inventory db1) \<and>
                reservations db2
                  = map (cancel_reservation e2 (rsv_ID rsv)) (reservations db1)) \<and>
         quantities db2 = quantities db \<and>
         (\<forall>p. stock_total db2 p = stock_total db p) \<and>
         (\<forall>e between p.
            stock_total
              (snd (inventoryService_HandlePaymentRefunded e refunded
                      (inventory_consume between db1))) p
            = stock_total db p) \<and>
         (\<forall>dbx rsv.
            active_reservation dbx (pr_OrderID refunded) = Some rsv \<longrightarrow>
            inventory (snd (inventoryService_HandlePaymentRefunded e2 refunded dbx))
              = map (restore_row e2 (rsv_Quantity rsv) (rsv_ProductID rsv)) (inventory dbx)))"
proof -
  define db1 where "db1 = snd (inventoryService_HandlePaymentCompleted e1 paid db)"
  define db2 where "db2 = snd (inventoryService_HandlePaymentRefunded e2 refunded db1)"
  define new where "new =
    \<lparr>rsv_ID = next_reservation_id db, rsv_OrderID = pc_OrderID paid,
     rsv_ProductID = 1, rsv_Quantity = 1, rsv_Status = RESERVED,
     rsv_IdempotencyKey = reservation_key paid, rsv_ExpiredAt = now e1 + 1800,
     rsv_CreatedAt = now e1, rsv_UpdatedAt = now e1\<rparr>"
  note reserved = HandlePaymentCompleted_reserved [OF quiet1 fresh row stock]
  have inv1: "inventory db1 = map (reserve_row e1 1 1 (inv_Version row)) (inventory db)"
    unfolding db1_def by (rule reserved(2))
  have rs1: "reservations db1 = reservations db @ [new]"
    unfolding db1_def new_def by (rule reserved(3))
  from inactive
  have none: "\<forall>r \<in> set (reservations db).
                \<not> (rsv_OrderID r = pc_OrderID paid \<and> rsv_Status r = RESERVED)"
    by (simp add: active_reservation_def find_None_iff)
  have act: "active_reservation db1 (pr_OrderID refunded) = Some new"
    unfolding active_reservation_def rs1 same_order
    by (rule find_append_fresh [OF none]) (simp add: new_def)
  have q: "rsv_Quantity new = 1" and pr: "rsv_ProductID new = 1"
    by (simp_all add: new_def)
  note restored = HandlePaymentRefunded_restored [OF quiet2 act]
  have inv2: "inventory db2 = map (restore_row e2 (rsv_Quantity new) (rsv_ProductID new)) (inventory db1)"
    unfolding db2_def by (rule restored(2))
  have rs2: "reservations db2 = map (cancel_reservation e2 (rsv_ID new)) (reservations db1)"
    unfolding db2_def by (rule restored(3))
  have quant: "quantities db2 = quantities db"
    unfolding quantities_def inv2 inv1 q pr
    by (rule restore_reserve_quantities [OF uniq row])
  have total: "stock_total (snd (inventoryService_HandlePaymentRefunded e refunded
                      (inventory_consume between db1))) p = stock_total db p" for e between p
    unfolding db1_def
    by (simp add: stock_total_HandlePaymentRefunded stock_total_inventory_consume
          stock_total_HandlePaymentCompleted)
  have total2: "stock_total db2 p = stock_total db p" for p
    unfolding db2_def db1_def
    by (simp add: stock_total_HandlePaymentRefunded stock_total_HandlePaymentCompleted)
  have general: "inventory (snd (inventoryService_HandlePaymentRefunded e2 refunded dbx))
              = map (restore_row e2 (rsv_Quantity rsv) (rsv_ProductID rsv)) (inventory dbx)"
    if "active_reservation dbx (pr_OrderID refunded) = Some rsv" for dbx rsv
    by (rule HandlePaymentRefunded_restored(2) [OF quiet2 that])
  from act q pr inv2 rs2
  have ex: "\<exists>rsv. active_reservation db1 (pr_OrderID refunded) = Some rsv \<and>
                rsv_Quantity rsv = 1 \<and> rsv_ProductID rsv = 1 \<and>
                inventory db2
                  = map (restore_row e2 (rsv_Quantity rsv) (rsv_ProductID rsv)) (inventory db1) \<and>
                reservations db2
                  = map (cancel_reservation e2 (rsv_ID rsv)) (reservations db1)"
    by blast
  from inv1 ex quant total total2 general show ?thesis
    unfolding Let_def db1_def [symmetric] db2_def [symmetric] by blast
qed

theorem refund_restores_stock_total_witness:
  "active_reservation db_stock (pc_OrderID payment_completed_12) = None \<and>
   distinct (map inv_ProductID (inventory db_stock)) \<and>
   pr_OrderID payment_refunded_12 = pc_OrderID payment_completed_12 \<and>
   quantities db_stock = [(1, 5, 0), (2, 50, 0)] \<and>
   quantities (snd (inventoryService_HandlePaymentCompleted env_quiet payment_completed_12
                      db_stock))
     = [(1, 4, 1), (2, 50, 0)] \<and>
   quantities
     (snd (inventoryService_HandlePaymentRefunded env_quiet payment_refunded_12
             (snd (inventoryService_HandlePaymentCompleted env_quiet payment_completed_12
                     db_stock))))
     = [(1, 5, 0), (2, 50, 0)]"
proof -
  have h1: "\<forall>c. \<not> fails env_quiet c"
    by (simp add: env_quiet_def)
  have h2: "\<forall>r \<in> set (reservations db_stock).
              rsv_IdempotencyKey r \<noteq> reservation_key payment_completed_12"
    by (simp add: db_stock_def)
  have h3: "active_reservation db_stock (pc_OrderID payment_completed_12) = None"
    by (simp add: active_reservation_def db_stock_def)
  have h4: "distinct (map inv_ProductID (inventory db_stock))"
    by (simp add: db_stock_def)
  have h5: "find (\<lambda>r. inv_ProductID r = 1) (inventory db_stock)
      = Some \<lparr>inv_ProductID = 1, inv_AvailableQty = 5, inv_ReservedQty = 0, inv_Version = 0,
               inv_UpdatedAt = 0\<rparr>"
    by (simp add: db_stock_def)
  have h6: "1 \<le> inv_AvailableQty
                 \<lparr>inv_ProductID = 1, inv_AvailableQty = 5, inv_ReservedQty = 0,
                  inv_Version = 0, inv_UpdatedAt = 0\<rparr>"
    by simp
  have h7: "pr_OrderID payment_refunded_12 = pc_OrderID payment_completed_12"
    by (simp add: payment_refunded_12_def payment_completed_12_def)
  have before: "quantities db_stock = [(1, 5, 0), (2, 50, 0)]"
    by (simp add: quantities_def db_stock_def)
  have reserved: "quantities (snd (inventoryService_HandlePaymentCompleted env_quiet
                                     payment_completed_12 db_stock))
     = [(1, 4, 1), (2, 50, 0)]"
    by code_simp
  from refund_restores_stock_total [OF h1 h1 h2 h3 h4 h5 h6 h7]
  have "quantities
     (snd (inventoryService_HandlePaymentRefunded env_quiet payment_refunded_12
             (snd (inventoryService_HandlePaymentCompleted env_quiet payment_completed_12
                     db_stock))))
     = quantities db_stock"
    unfolding Let_def by (elim conjE)
  with before have after: "quantities
     (snd (inventoryService_HandlePaymentRefunded env_quiet payment_refunded_12
             (snd (inventoryService_HandlePaymentCompleted env_quiet payment_completed_12
                     db_stock))))
     = [(1, 5, 0), (2, 50, 0)]"
    by simp
  from h3 h4 h7 before reserved after show ?thesis by (intro conjI)
qed

text \<open>
  The reservation and its compensation on product 1 with five units: 5/0 becomes 4/1
  and then 5/0 again, and the reservation ends \<open>CANCELED\<close>.
\<close>

lemma reserve_then_restore_example:
  "map (\<lambda>r. (inv_ProductID r, inv_AvailableQty r, inv_ReservedQty r))
     (inventory (snd (inventoryService_HandlePaymentCompleted env_quiet payment_completed_12
                        db_stock)))
     = [(1, 4, 1), (2, 50, 0)] \<and>
   map (\<lambda>r. (inv_ProductID r, inv_AvailableQty r, inv_ReservedQty r))
     (inventory (snd (inventoryService_HandlePaymentRefunded env_quiet payment_refunded_12
        (snd (inventoryService_HandlePaymentCompleted env_quiet payment_completed_12
                db_stock)))))
     = [(1, 5, 0), (2, 50, 0)] \<and>
   map rsv_Status
     (reservations (snd (inventoryService_HandlePaymentRefunded env_quiet payment_refunded_12
        (snd (inventoryService_HandlePaymentCompleted env_quiet payment_completed_12
                db_stock)))))
     = [CANCELED]"
  by code_simp

lemma find_map_same_key:
  assumes "\<And>r. k (g r) = k r"
  shows "find (\<lambda>r. k r = p) (map g xs) = map_option g (find (\<lambda>r. k r = p) xs)"
  by (induction xs) (simp_all add: assms)

lemma reason_of_StockReservationFailed:
  "payload_field ''reason''
     (\<lparr>ob_ID = i, ob_AggregateType = a, ob_AggregateID = g, ob_EventType = t,
       ob_Payload = marshal_StockReservationFailed b orderID q reason,
       ob_Status = st, ob_CreatedAt = c, ob_SentAt = sa\<rparr>) = Some (JString reason)"
  by (simp add: payload_field_def unmarshal_map_def marshal_StockReservationFailed_def
        marshal_base_def)

text \<open>
  C5 (as the code behaves). With no failing call and an event that is not a duplicate,
  \<open>HandlePaymentCompleted\<close> reserves one unit of product 1, whatever the order asked
  for: \<open>StockReservationFailed\<close> with the reason "insufficient stock" is emitted
  exactly when fewer than one unit of product 1 is available, and otherwise the row of
  product 1 has one unit moved from available to reserved.
\<close>

theorem HandlePaymentCompleted_reserves_one_of_product_1:
  assumes quiet: "\<forall>c. \<not> fails e c"
    and fresh: "\<forall>r \<in> set (reservations db). rsv_IdempotencyKey r \<noteq> reservation_key evt"
  shows "reserves_requested 1 1 e evt db"
proof (cases "find (\<lambda>r. inv_ProductID r = 1) (inventory db)")
  case None
  then show ?thesis by (simp add: reserves_requested_def)
next
  case (Some row)
  then have mem: "row \<in> set (inventory db)" and pid: "inv_ProductID row = 1"
    using find_Some_key [of inv_ProductID 1 "inventory db" row] by auto
  from fresh have nokey: "\<not> (\<exists>r \<in> set (reservations db). rsv_IdempotencyKey r = reservation_key evt)"
    by blast
  show ?thesis
  proof (cases "inv_AvailableQty row < 1")
    case True
    with Some quiet nokey show ?thesis
      by (simp add: reserves_requested_def inventoryService_HandlePaymentCompleted_def
            publishStockReservationFailed_def insert_outbox_def emitted_def
            insufficient_stock_emitted_def reason_of_StockReservationFailed)
  next
    case False
    from mem pid have affected:
      "filter (\<lambda>r. inv_ProductID r = 1 \<and> inv_Version r = inv_Version row) (inventory db) \<noteq> []"
      by (auto simp: filter_empty_conv)
    have found: "find (\<lambda>r. inv_ProductID r = 1)
                   (map (reserve_row e 1 1 (inv_Version row)) (inventory db))
                 = Some (reserve_row e 1 1 (inv_Version row) row)"
      using Some by (simp add: find_map_same_key [of inv_ProductID] reserve_row_def)
    from False Some quiet nokey affected found pid show ?thesis
      by (simp add: reserves_requested_def inventoryService_HandlePaymentCompleted_def
            insert_outbox_def emitted_def insufficient_stock_emitted_def Let_def
            reserve_row_def EventStockReserved_def EventStockReservationFailed_def)
  qed
qed

theorem HandlePaymentCompleted_reserves_one_of_product_1_witness:
  "\<not> fails env_quiet CallCommit \<and>
   reservations db_stock = [] \<and>
   \<not> insufficient_stock_emitted db_stock
       (snd (inventoryService_HandlePaymentCompleted env_quiet payment_completed_12 db_stock)) \<and>
   find (\<lambda>r. inv_ProductID r = 1)
     (inventory (snd (inventoryService_HandlePaymentCompleted env_quiet payment_completed_12
                        db_stock)))
     = Some \<lparr>inv_ProductID = 1, inv_AvailableQty = 4, inv_ReservedQty = 1, inv_Version = 1,
             inv_UpdatedAt = 7\<rparr>"
proof -
  have h1: "\<forall>c. \<not> fails env_quiet c"
    by (simp add: env_quiet_def)
  have h2: "\<forall>r \<in> set (reservations db_stock).
              rsv_IdempotencyKey r \<noteq> reservation_key payment_completed_12"
    by (simp add: db_stock_def)
  have row: "find (\<lambda>r. inv_ProductID r = 1) (inventory db_stock)
      = Some \<lparr>inv_ProductID = 1, inv_AvailableQty = 5, inv_ReservedQty = 0, inv_Version = 0,
               inv_UpdatedAt = 0\<rparr>"
    by (simp add: db_stock_def)
  have t: "now env_quiet = 7"
    by (simp add: env_quiet_def)
  have r: "reservations db_stock = []"
    by (simp add: db_stock_def)
  from HandlePaymentCompleted_reserves_one_of_product_1 [OF h1 h2] h1 r
  show ?thesis
    unfolding reserves_requested_def row t by (simp add: Let_def)
qed

text \<open>
  An order of three units, of product 1 or of product 2, with five and fifty units in
  stock: the handler does not reserve the requested quantity of the requested product.
\<close>

theorem HandlePaymentCompleted_ignores_requested_quantity:
  "\<not> reserves_requested 1 3 env_quiet payment_completed_12 db_stock \<and>
   \<not> reserves_requested 2 3 env_quiet payment_completed_12 db_stock"
  by code_simp

section \<open>Atomicity of aggregate write and outbox insert\<close>

text \<open>
  C1 (evaluation of the code). The three handlers write the aggregate row outside the
  transaction that carries the outbox row. When the outbox insert fails, the call
  returns an error and the transaction is rolled back, yet the aggregate is changed
  and no outbox row describes the change: the order row is stored by \<open>CreateOrder\<close>,
  the payment row is stored by \<open>HandleOrderCreated\<close>, and the payment is set to
  \<open>REFUNDED\<close> by \<open>HandleStockReservationFailed\<close>.
\<close>

theorem aggregate_write_survives_rollback:
  "fst (CreateOrder env_outbox_down cmd_k1 db_empty)
     = Inl (AppError ErrCodeDatabaseError ''failed to insert outbox event''
              (Some (Errorf ''failed to insert outbox event'' (Some DriverError)))) \<and>
   map ord_IdempotencyKey (orders (snd (CreateOrder env_outbox_down cmd_k1 db_empty)))
     = [''k1''] \<and>
   order_outbox (snd (CreateOrder env_outbox_down cmd_k1 db_empty)) = [] \<and>
   fst (paymentService_HandleOrderCreated env_outbox_down order_created_7 db_unpaid) \<noteq> None \<and>
   map pay_IdempotencyKey
     (payments (snd (paymentService_HandleOrderCreated env_outbox_down order_created_7
                       db_unpaid)))
     = [''payment-7-ev-1''] \<and>
   payment_outbox (snd (paymentService_HandleOrderCreated env_outbox_down order_created_7
                          db_unpaid)) = [] \<and>
   fst (paymentService_HandleStockReservationFailed env_outbox_down stock_reservation_failed_7
          db_paid_7) \<noteq> None \<and>
   map pay_Status
     (payments (snd (paymentService_HandleStockReservationFailed env_outbox_down
                       stock_reservation_failed_7 db_paid_7)))
     = [PaymentStatusRefunded] \<and>
   payment_outbox (snd (paymentService_HandleStockReservationFailed env_outbox_down
                          stock_reservation_failed_7 db_paid_7)) = []"
  by code_simp

end
